theory Spec2Isabelle
  imports Main "HOL-Library.Word"
begin

unbundle bit_operations_syntax

section \<open>Go machine integers\<close>

type_synonym byte = "8 word"
type_synonym uint16 = "16 word"
type_synonym uint32 = "32 word"

text \<open>
  Go's \<open>int\<close> is 64 bits wide on the targets the build instructions name (amd64, arm64).
  It is modelled as a HOL \<open>int\<close>; every arithmetic result is wrapped to the
  two's-complement range by \<open>i64\<close>.
\<close>

definition i64 :: "int \<Rightarrow> int" where
  "i64 k = signed_take_bit 63 k"

text \<open>Go's integer division truncates towards zero.\<close>

definition quot :: "int \<Rightarrow> int \<Rightarrow> int" where
  "quot a b = sgn a * sgn b * (\<bar>a\<bar> div \<bar>b\<bar>)"

text \<open>How a call ends: it returns, or a run-time panic unwinds it.\<close>

datatype outcome = Returned | Panicked

section \<open>pkg/framebuffer: the frame buffer device\<close>

text \<open>The value of \<open>color.Color.RGBA()\<close>: four 32-bit channels.\<close>

record Color =
  red :: uint32
  green :: uint32
  blue :: uint32
  alpha :: uint32

text \<open>The fields of the two kernel structures that the package reads.\<close>

record FixedScreenInfo =
  SmemLen :: uint32
  LineLength :: uint32

record VarScreenInfo =
  XRes :: uint32
  YRes :: uint32
  BitsPerPixel :: uint32

text \<open>
  \<open>device\<close> is the file handle (its descriptor; \<open>None\<close> is \<open>nil\<close>), \<open>fbData\<close>
  the mapped byte slice (\<open>None\<close> is \<open>nil\<close>).
\<close>

record FrameBuffer =
  device :: "int option"
  screenInfo :: FixedScreenInfo
  varInfo :: VarScreenInfo
  fbData :: "byte list option"
  width :: int
  height :: int
  bpp :: int
  closed :: bool

text \<open>\<open>len(fb.fbData)\<close>; the length of a nil slice is 0.\<close>

definition len_fbData :: "FrameBuffer \<Rightarrow> int" where
  "len_fbData fb = (case fbData fb of None \<Rightarrow> 0 | Some buf \<Rightarrow> int (length buf))"

text \<open>
  A sequence of indexed byte stores \<open>buf[i] = v\<close>, in program order. An index outside
  the slice panics; the stores made before it stay.
\<close>

fun store_bytes :: "byte list \<Rightarrow> (int \<times> byte) list \<Rightarrow> outcome \<times> byte list" where
  "store_bytes buf [] = (Returned, buf)"
| "store_bytes buf ((i, v) # ws) =
     (if 0 \<le> i \<and> i < int (length buf) then store_bytes (buf[nat i := v]) ws
      else (Panicked, buf))"

text \<open>\<open>uint16((r&0xF8)<<8 | (g&0xFC)<<3 | (b&0xF8)>>3)\<close>\<close>

definition rgb565 :: "uint32 \<Rightarrow> uint32 \<Rightarrow> uint32 \<Rightarrow> uint16" where
  "rgb565 r g b =
     ucast (push_bit 8 (r AND 0xF8) OR push_bit 3 (g AND 0xFC) OR drop_bit 3 (b AND 0xF8))"

text \<open>The \<open>switch fb.bpp\<close> of \<open>SetPixel\<close>: the stores of each case; no default case.\<close>

definition pixel_stores :: "int \<Rightarrow> int \<Rightarrow> uint32 \<Rightarrow> uint32 \<Rightarrow> uint32 \<Rightarrow> (int \<times> byte) list" where
  "pixel_stores depth offset r g b =
     (if depth = 16 then
        (let pixel = rgb565 r g b
         in [(offset, ucast (pixel AND 0xFF)), (i64 (offset + 1), ucast (drop_bit 8 pixel))])
      else if depth = 24 then
        [(offset, ucast b), (i64 (offset + 1), ucast g), (i64 (offset + 2), ucast r)]
      else if depth = 32 then
        [(offset, ucast b), (i64 (offset + 1), ucast g), (i64 (offset + 2), ucast r),
         (i64 (offset + 3), 0)]
      else [])"

text \<open>\<open>offset := y*int(fb.screenInfo.LineLength) + x*(fb.bpp/8)\<close>\<close>

definition pixel_offset :: "FrameBuffer \<Rightarrow> int \<Rightarrow> int \<Rightarrow> int" where
  "pixel_offset fb x y =
     i64 (i64 (y * uint (LineLength (screenInfo fb))) + i64 (x * quot (bpp fb) 8))"

definition setPixelUnsafe :: "FrameBuffer \<Rightarrow> int \<Rightarrow> int \<Rightarrow> Color \<Rightarrow> outcome \<times> FrameBuffer" where
  "setPixelUnsafe fb x y c =
     (if x < 0 \<or> x \<ge> width fb \<or> y < 0 \<or> y \<ge> height fb then (Returned, fb)
      else
        let r = drop_bit 8 (red c);
            g = drop_bit 8 (green c);
            b = drop_bit 8 (blue c);
            offset = pixel_offset fb x y;
            bytesPerPixel = quot (bpp fb) 8
        in if offset < 0 \<or> i64 (offset + bytesPerPixel) > len_fbData fb then (Returned, fb)
           else (case fbData fb of
                   None \<Rightarrow> (fst (store_bytes [] (pixel_stores (bpp fb) offset r g b)), fb)
                 | Some buf \<Rightarrow>
                     (case store_bytes buf (pixel_stores (bpp fb) offset r g b) of
                        (oc, buf') \<Rightarrow> (oc, fb\<lparr>fbData := Some buf'\<rparr>))))"

text \<open>
  \<open>SetPixel\<close> checks the closed flag and the mapping first; the rest of its body is
  the same text as \<open>setPixelUnsafe\<close>.
\<close>

definition SetPixel :: "FrameBuffer \<Rightarrow> int \<Rightarrow> int \<Rightarrow> Color \<Rightarrow> outcome \<times> FrameBuffer" where
  "SetPixel fb x y c =
     (if closed fb \<or> fbData fb = None then (Returned, fb)
      else setPixelUnsafe fb x y c)"

definition Clear :: "FrameBuffer \<Rightarrow> outcome \<times> FrameBuffer" where
  "Clear fb =
     (if closed fb \<or> fbData fb = None then (Returned, fb)
      else (Returned, fb\<lparr>fbData := map_option (map (\<lambda>_. 0)) (fbData fb)\<rparr>))"

text \<open>An \<open>image.Image\<close>: its bounds rectangle and its \<open>At\<close> method.\<close>

record Image =
  MinX :: int
  MinY :: int
  MaxX :: int
  MaxY :: int
  At :: "int \<Rightarrow> int \<Rightarrow> Color"

definition Dx :: "Image \<Rightarrow> int" where
  "Dx img = i64 (MaxX img - MinX img)"

definition Dy :: "Image \<Rightarrow> int" where
  "Dy img = i64 (MaxY img - MinY img)"

text \<open>
  The two nested loops of \<open>DrawImage\<close>, as the list of device coordinates they visit,
  rows outermost.
\<close>

definition draw_coords :: "int \<Rightarrow> int \<Rightarrow> int \<Rightarrow> int \<Rightarrow> (int \<times> int) list" where
  "draw_coords startX startY endX endY =
     concat (map (\<lambda>py. map (\<lambda>px. (px, py)) [startX..endX - 1]) [startY..endY - 1])"

fun draw_pixels :: "Image \<Rightarrow> int \<Rightarrow> int \<Rightarrow> FrameBuffer \<Rightarrow> (int \<times> int) list \<Rightarrow> outcome \<times> FrameBuffer" where
  "draw_pixels img x y fb [] = (Returned, fb)"
| "draw_pixels img x y fb ((px, py) # ps) =
     (let srcX = i64 (MinX img + i64 (px - x));
          srcY = i64 (MinY img + i64 (py - y));
          c = At img srcX srcY
      in case setPixelUnsafe fb px py c of
           (Panicked, fb') \<Rightarrow> (Panicked, fb')
         | (Returned, fb') \<Rightarrow> draw_pixels img x y fb' ps)"

definition DrawImage :: "FrameBuffer \<Rightarrow> Image \<Rightarrow> int \<Rightarrow> int \<Rightarrow> outcome \<times> FrameBuffer" where
  "DrawImage fb img x y =
     (if closed fb \<or> fbData fb = None then (Returned, fb)
      else
        let startX = max 0 x;
            startY = max 0 y;
            endX = min (width fb) (i64 (x + Dx img));
            endY = min (height fb) (i64 (y + Dy img))
        in draw_pixels img x y fb (draw_coords startX startY endX endY))"

text \<open>
  The operating system is outside the program: what each system call answers is a
  parameter of the model, and every function that makes system calls also returns the
  list of calls it made, in order.
\<close>

type_synonym errno = nat

datatype syscall =
    SysOpen
  | SysIoctl nat
  | SysMmap int
  | SysMunmap
  | SysClose int

datatype fb_error =
    OpenFailed errno
  | FScreenInfoFailed errno
  | VScreenInfoFailed errno
  | ImplausibleSize int
  | MmapFailed errno
  | MapSizeMismatch int int
  | MunmapFailed errno
  | CloseFailed errno
  | Joined fb_error fb_error

definition FBIOGET_FSCREENINFO :: nat where
  "FBIOGET_FSCREENINFO = 0x4602"

definition FBIOGET_VSCREENINFO :: nat where
  "FBIOGET_VSCREENINFO = 0x4600"

text \<open>
  The answers of the system while a frame buffer is opened: of \<open>os.OpenFile\<close> (the
  descriptor), of the two \<open>ioctl\<close> calls (the structure the kernel fills in) and of
  \<open>syscall.Mmap\<close> for a requested length (the mapped bytes).
\<close>

record fb_os =
  open_result :: "errno + int"
  fscreeninfo_result :: "errno + FixedScreenInfo"
  vscreeninfo_result :: "errno + VarScreenInfo"
  mmap_result :: "int \<Rightarrow> errno + byte list"

definition getScreenInfo :: "fb_os \<Rightarrow> FrameBuffer \<Rightarrow> fb_error option \<times> FrameBuffer \<times> syscall list" where
  "getScreenInfo os fb =
     (case fscreeninfo_result os of
        Inl e \<Rightarrow> (Some (FScreenInfoFailed e), fb, [SysIoctl FBIOGET_FSCREENINFO])
      | Inr fix \<Rightarrow>
          (let fb1 = fb\<lparr>screenInfo := fix\<rparr>
           in case vscreeninfo_result os of
                Inl e \<Rightarrow> (Some (VScreenInfoFailed e), fb1,
                          [SysIoctl FBIOGET_FSCREENINFO, SysIoctl FBIOGET_VSCREENINFO])
              | Inr var \<Rightarrow>
                  (None,
                   fb1\<lparr>varInfo := var, width := uint (XRes var), height := uint (YRes var),
                       bpp := uint (BitsPerPixel var)\<rparr>,
                   [SysIoctl FBIOGET_FSCREENINFO, SysIoctl FBIOGET_VSCREENINFO])))"

definition mapMemory :: "fb_os \<Rightarrow> FrameBuffer \<Rightarrow> fb_error option \<times> FrameBuffer \<times> syscall list" where
  "mapMemory os fb =
     (let screenSize = uint (SmemLen (screenInfo fb))
      in if screenSize \<le> 0 \<or> screenSize > 1024 * 1024 * 1024
         then (Some (ImplausibleSize screenSize), fb, [])
         else (case mmap_result os screenSize of
                 Inl e \<Rightarrow> (Some (MmapFailed e), fb, [SysMmap screenSize])
               | Inr data \<Rightarrow>
                   if int (length data) \<noteq> screenSize
                   then (Some (MapSizeMismatch screenSize (int (length data))), fb,
                         [SysMmap screenSize, SysMunmap])
                   else (None, fb\<lparr>fbData := Some data\<rparr>, [SysMmap screenSize])))"

text \<open>The zero value of the structure, as \<open>&FrameBuffer{}\<close> allocates it.\<close>

definition zero_FrameBuffer :: FrameBuffer where
  "zero_FrameBuffer =
     \<lparr>device = None, screenInfo = \<lparr>SmemLen = 0, LineLength = 0\<rparr>,
      varInfo = \<lparr>XRes = 0, YRes = 0, BitsPerPixel = 0\<rparr>,
      fbData = None, width = 0, height = 0, bpp = 0, closed = False\<rparr>"

definition NewFrameBuffer :: "fb_os \<Rightarrow> (fb_error + FrameBuffer) \<times> syscall list" where
  "NewFrameBuffer os =
     (case open_result os of
        Inl e \<Rightarrow> (Inl (OpenFailed e), [SysOpen])
      | Inr fd \<Rightarrow>
          (let fb = zero_FrameBuffer\<lparr>device := Some fd\<rparr>
           in case getScreenInfo os fb of
                (Some err, fb1, calls1) \<Rightarrow> (Inl err, SysOpen # calls1 @ [SysClose fd])
              | (None, fb1, calls1) \<Rightarrow>
                  (case mapMemory os fb1 of
                     (Some err, fb2, calls2) \<Rightarrow>
                       (Inl err, SysOpen # calls1 @ calls2 @ [SysClose fd])
                   | (None, fb2, calls2) \<Rightarrow> (Inr fb2, SysOpen # calls1 @ calls2))))"

text \<open>
  \<open>Close\<close>; \<open>munmap_res\<close> and \<open>close_res\<close> are the errors (if any) that
  \<open>syscall.Munmap\<close> and the descriptor's \<open>Close\<close> answer.
\<close>

definition Close :: "errno option \<Rightarrow> errno option \<Rightarrow> FrameBuffer
                      \<Rightarrow> fb_error option \<times> FrameBuffer \<times> syscall list" where
  "Close munmap_res close_res fb =
     (if closed fb then (None, fb, [])
      else
        let (err1, fb1, calls1) =
              (case fbData fb of
                 None \<Rightarrow> (None, fb, [])
               | Some data \<Rightarrow>
                   (map_option MunmapFailed munmap_res, fb\<lparr>fbData := None\<rparr>, [SysMunmap]));
            (err2, fb2, calls2) =
              (case device fb1 of
                 None \<Rightarrow> (err1, fb1, [])
               | Some fd \<Rightarrow>
                   ((case close_res of
                       None \<Rightarrow> err1
                     | Some ce \<Rightarrow>
                         (case err1 of
                            Some e1 \<Rightarrow> Some (Joined e1 (CloseFailed ce))
                          | None \<Rightarrow> Some (CloseFailed ce))),
                    fb1\<lparr>device := None\<rparr>, [SysClose fd]))
        in (err2, fb2\<lparr>closed := True\<rparr>, calls1 @ calls2))"

section \<open>pkg/input: the raw terminal\<close>

text \<open>The fields of \<open>syscall.Termios\<close> (linux); \<open>Cc\<close> has 32 entries.\<close>

record Termios =
  Iflag :: uint32
  Oflag :: uint32
  Cflag :: uint32
  Lflag :: uint32
  Cc :: "byte list"

text \<open>The constants of package \<open>syscall\<close> (linux) that \<open>setRawMode\<close> names.\<close>

definition ICANON :: uint32 where "ICANON = 0x2"
definition ECHO :: uint32 where "ECHO = 0x8"
definition ECHOE :: uint32 where "ECHOE = 0x10"
definition ECHOK :: uint32 where "ECHOK = 0x20"
definition ECHONL :: uint32 where "ECHONL = 0x40"
definition ECHOPRT :: uint32 where "ECHOPRT = 0x400"
definition ECHOKE :: uint32 where "ECHOKE = 0x800"
definition ICRNL :: uint32 where "ICRNL = 0x100"
definition IXON :: uint32 where "IXON = 0x400"
definition IXOFF :: uint32 where "IXOFF = 0x1000"
definition IXANY :: uint32 where "IXANY = 0x800"
definition VMIN :: nat where "VMIN = 6"
definition VTIME :: nat where "VTIME = 5"
definition EINTR :: errno where "EINTR = 4"

text \<open>
  The terminal itself, outside the program: its current attributes and whether its
  cursor is hidden.
\<close>

record Terminal =
  attrs :: Termios
  cursor_hidden :: bool

text \<open>\<open>ki.ttyDevice\<close>: a file of its own, or \<open>os.Stdout\<close>.\<close>

datatype tty_handle = TtyFile int | Stdout

record KeyboardInput =
  device_ki :: "int option"
  ttyDevice :: "tty_handle option"
  oldTermios :: Termios
  closed_ki :: bool
  restored :: bool

datatype kb_error =
    StdinOpenFailed errno
  | GetAttrFailed errno
  | SetAttrFailed errno
  | HideCursorFailed errno
  | KeyboardClosed
  | InvalidFd
  | SelectFailed errno
  | ReadFailed errno
  | NoDataRead

text \<open>
  The answers of the system while the keyboard is opened: the two \<open>os.OpenFile\<close>
  calls, the error numbers of the \<open>TCGETS\<close> and \<open>TCSETS\<close> ioctls (0 is success), and
  the error (if any) of writing the escape sequence to the terminal.
\<close>

record kb_os =
  open_stdin :: "errno + int"
  open_tty :: "errno + int"
  tcgets_errno :: errno
  tcsets_errno :: errno
  tty_write :: "errno option"

definition hideCursor :: "kb_os \<Rightarrow> KeyboardInput \<Rightarrow> Terminal \<Rightarrow> errno option \<times> Terminal" where
  "hideCursor os ki term =
     (case ttyDevice ki of
        None \<Rightarrow> (None, term)
      | Some h \<Rightarrow>
          (case tty_write os of
             Some e \<Rightarrow> (Some e, term)
           | None \<Rightarrow> (None, term\<lparr>cursor_hidden := True\<rparr>)))"

text \<open>The attributes \<open>setRawMode\<close> builds from the ones it read.\<close>

definition raw_of :: "Termios \<Rightarrow> Termios" where
  "raw_of old =
     old\<lparr>Lflag := Lflag old AND NOT (ICANON OR ECHO OR ECHOE OR ECHOK OR ECHONL OR ECHOPRT
                                     OR ECHOKE OR ICRNL),
         Iflag := Iflag old AND NOT (IXON OR IXOFF OR IXANY),
         Cc := (Cc old)[VMIN := 1, VTIME := 0]\<rparr>"

definition setRawMode :: "kb_os \<Rightarrow> KeyboardInput \<Rightarrow> Terminal
                           \<Rightarrow> kb_error option \<times> KeyboardInput \<times> Terminal" where
  "setRawMode os ki term =
     (if tcgets_errno os \<noteq> 0 then (Some (GetAttrFailed (tcgets_errno os)), ki, term)
      else
        let ki1 = ki\<lparr>oldTermios := attrs term\<rparr>;
            newTermios = raw_of (oldTermios ki1)
        in if tcsets_errno os \<noteq> 0 then (Some (SetAttrFailed (tcsets_errno os)), ki1, term)
           else
             let term1 = term\<lparr>attrs := newTermios\<rparr>
             in case hideCursor os ki1 term1 of
                  (Some e, term2) \<Rightarrow> (Some (HideCursorFailed e), ki1, term2)
                | (None, term2) \<Rightarrow> (None, ki1, term2))"

definition zero_Termios :: Termios where
  "zero_Termios = \<lparr>Iflag = 0, Oflag = 0, Cflag = 0, Lflag = 0, Cc = replicate 32 0\<rparr>"

definition zero_KeyboardInput :: KeyboardInput where
  "zero_KeyboardInput =
     \<lparr>device_ki = None, ttyDevice = None, oldTermios = zero_Termios, closed_ki = False,
      restored = False\<rparr>"

text \<open>
  \<open>NewKeyboardInput\<close>. On a failure of \<open>setRawMode\<close> it closes the files it opened
  and returns the error; the result carries the terminal as the call leaves it.
\<close>

definition NewKeyboardInput :: "kb_os \<Rightarrow> Terminal \<Rightarrow> (kb_error + KeyboardInput) \<times> Terminal" where
  "NewKeyboardInput os term =
     (case open_stdin os of
        Inl e \<Rightarrow> (Inl (StdinOpenFailed e), term)
      | Inr fd \<Rightarrow>
          (let ki = zero_KeyboardInput\<lparr>device_ki := Some fd\<rparr>;
               ki1 = (case open_tty os of
                        Inl e \<Rightarrow> ki\<lparr>ttyDevice := Some Stdout\<rparr>
                      | Inr tfd \<Rightarrow> ki\<lparr>ttyDevice := Some (TtyFile tfd)\<rparr>)
           in case setRawMode os ki1 term of
                (Some err, ki2, term') \<Rightarrow> (Inl err, term')
              | (None, ki2, term') \<Rightarrow> (Inr ki2, term')))"

text \<open>
  The non-blocking reads. \<open>select_res\<close> is what \<open>syscall.Select\<close> answers (an error
  number, or the count of ready descriptors) and \<open>read_res\<close> what the device's
  \<open>Read\<close> answers (an error number, or the byte read; \<open>None\<close> when it read nothing).
  The descriptor set has 16 words of 64 bits: indexing it beyond that panics.
\<close>

definition ReadKeyNonBlocking :: "KeyboardInput \<Rightarrow> errno + int \<Rightarrow> errno + byte option
                                   \<Rightarrow> outcome \<times> byte \<times> bool \<times> kb_error option" where
  "ReadKeyNonBlocking ki select_res read_res =
     (case (if closed_ki ki then None else device_ki ki) of
        None \<Rightarrow> (Returned, 0, False, Some KeyboardClosed)
      | Some fd \<Rightarrow>
          if fd < 0 then (Returned, 0, False, Some InvalidFd)
          else if quot fd 64 \<ge> 16 then (Panicked, 0, False, None)
          else (case select_res of
                  Inl e \<Rightarrow> (Returned, 0, False, Some (SelectFailed e))
                | Inr n \<Rightarrow>
                    if n = 0 then (Returned, 0, False, None)
                    else (case read_res of
                            Inl e \<Rightarrow> (Returned, 0, False, Some (ReadFailed e))
                          | Inr None \<Rightarrow> (Returned, 0, False, None)
                          | Inr (Some k) \<Rightarrow> (Returned, k, True, None))))"

definition ReadKeyNonBlockingWithTimeout :: "KeyboardInput \<Rightarrow> int \<Rightarrow> errno + int
                                              \<Rightarrow> errno + byte option
                                              \<Rightarrow> outcome \<times> byte \<times> bool \<times> kb_error option" where
  "ReadKeyNonBlockingWithTimeout ki timeout select_res read_res =
     (case (if closed_ki ki then None else device_ki ki) of
        None \<Rightarrow> (Returned, 0, False, Some KeyboardClosed)
      | Some fd \<Rightarrow>
          if fd < 0 then (Returned, 0, False, Some InvalidFd)
          else if quot fd 64 \<ge> 16 then (Panicked, 0, False, None)
          else (case select_res of
                  Inl e \<Rightarrow>
                    if e = EINTR then (Returned, 0, False, None)
                    else (Returned, 0, False, Some (SelectFailed e))
                | Inr n \<Rightarrow>
                    if n = 0 then (Returned, 0, False, None)
                    else (case read_res of
                            Inl e \<Rightarrow> (Returned, 0, False, Some (ReadFailed e))
                          | Inr None \<Rightarrow> (Returned, 0, False, None)
                          | Inr (Some k) \<Rightarrow> (Returned, k, True, None))))"

section \<open>Text\<close>

text \<open>
  A Go string is modelled as the list of its Unicode code points; a literal of the
  source that is not ASCII is written as that list. \<open>asc\<close> reads an ASCII literal.
  An \<open>error\<close> value is modelled by its message.
\<close>

type_synonym gostring = "nat list"

definition asc :: "string \<Rightarrow> gostring" where
  "asc s = map of_char s"

text \<open>The verb \<open>%d\<close> of \<open>fmt.Sprintf\<close>.\<close>

fun digits :: "nat \<Rightarrow> gostring" where
  "digits n = (if n < 10 then [48 + n] else digits (n div 10) @ [48 + n mod 10])"

declare digits.simps [simp del]

definition fmt_d :: "int \<Rightarrow> gostring" where
  "fmt_d i = (if i < 0 then 45 # digits (nat (- i)) else digits (nat i))"

text \<open>\<open>strings.Split(s, "\n")\<close>\<close>

fun split_lines :: "gostring \<Rightarrow> gostring list" where
  "split_lines [] = [[]]"
| "split_lines (c # cs) =
     (if c = 10 then [] # split_lines cs
      else (case split_lines cs of [] \<Rightarrow> [[c]] | l # ls \<Rightarrow> (c # l) # ls))"

text \<open>How a function of the program ends: \<open>nil\<close>, an error, or a panic passing through.\<close>

datatype result = NoError | Error gostring | Panic

section \<open>The collaborators outside the core\<close>

text \<open>\<open>system.SystemInfo\<close>, as \<open>RenderMainMenu\<close> reads it.\<close>

record SystemInfo =
  Uptime :: gostring
  CPUModel :: gostring
  CPUCores :: int
  MemoryUsage :: gostring
  DiskSize :: gostring
  DiskCount :: int
  CurrentTime :: gostring
  IPAddress :: gostring
  QianKunCloudID :: gostring

record NetworkInterface =
  Name :: gostring
  Status :: gostring
  MAC :: gostring
  IPv4Address :: gostring
  IPv6Addresses :: "gostring list"

text \<open>
  What arrives from outside while the program waits, at each millisecond: a key byte on
  the terminal, a failed read of the terminal, its end of file, or the cancellation of
  the context by another goroutine (the signal handler).
\<close>

datatype event = KeyByte byte | ReadError gostring | ReadEOF | CtxDone

text \<open>
  The environment of the menu and of the orchestrator:
  \<^item> the text rasteriser at the size the menus set (14), with the white colour and the line
    spacing 3 that every call passes: \<open>GetTextBounds\<close>, \<open>RenderText\<close>,
    \<open>RenderMultilineText\<close> (\<open>Inl\<close> is the error);
  \<^item> \<open>qr_Encode\<close>: the size of the symbol and its black modules;
  \<^item> \<open>GetSystemInfo\<close>: the snapshot taken at a time;
  \<^item> \<open>GetNetworkInterfaces\<close>, \<open>RebootSystem\<close>, \<open>ShutdownSystem\<close>: their answers;
  \<^item> the network test: the arguments of the progress callbacks it makes, the time it
    takes, and the text \<open>formatNetworkTestResults\<close> makes of its results (it formats
    floating-point numbers);
  \<^item> \<open>sched\<close>: the events, by millisecond;
  \<^item> \<open>select_takes_key\<close>: the choice of the runtime at a time when a \<open>select\<close> finds both
    a key and the cancelled context ready (it picks among the ready cases at random):
    \<open>True\<close> takes the key.
\<close>

record Env =
  GetTextBounds :: "gostring \<Rightarrow> int \<times> int"
  RenderText :: "gostring \<Rightarrow> gostring + Image"
  RenderMultilineText :: "gostring list \<Rightarrow> gostring + Image"
  qr_Encode :: "gostring \<Rightarrow> gostring + int \<times> (int \<Rightarrow> int \<Rightarrow> bool)"
  GetSystemInfo :: "nat \<Rightarrow> SystemInfo"
  GetNetworkInterfaces :: "gostring + NetworkInterface list"
  RebootSystem :: "gostring option"
  ShutdownSystem :: "gostring option"
  netTestProgress :: "(gostring \<times> int \<times> int \<times> gostring) list"
  netTestDuration :: nat
  netTestResultsText :: gostring
  sched :: "nat \<Rightarrow> event option"
  select_takes_key :: "nat \<Rightarrow> bool"

section \<open>pkg/menu: the differential renderer\<close>

text \<open>
  The calls a renderer makes on its frame buffer are recorded, oldest first, in the
  ghost field \<open>fb_calls\<close>: the device writes of a frame are the calls it adds.
\<close>

datatype fb_call = CallClear | CallDrawImage int int

record MenuRenderer =
  fb :: FrameBuffer
  width_mr :: int
  height_mr :: int
  lastContent :: gostring
  needsClear :: bool
  staticRendered :: bool
  lastDynamicHeight :: int
  fb_calls :: "fb_call list"

definition NewMenuRenderer :: "FrameBuffer \<Rightarrow> MenuRenderer" where
  "NewMenuRenderer f =
     \<lparr>fb = f, width_mr = width f, height_mr = height f, lastContent = [],
      needsClear = True, staticRendered = False, lastDynamicHeight = 0, fb_calls = []\<rparr>"

text \<open>\<open>mr.fb.Clear()\<close> and \<open>mr.fb.DrawImage(img, x, y)\<close>\<close>

definition fb_Clear :: "MenuRenderer \<Rightarrow> MenuRenderer" where
  "fb_Clear mr = mr\<lparr>fb := snd (Clear (fb mr)), fb_calls := fb_calls mr @ [CallClear]\<rparr>"

definition fb_DrawImage :: "MenuRenderer \<Rightarrow> Image \<Rightarrow> int \<Rightarrow> int \<Rightarrow> result \<times> MenuRenderer" where
  "fb_DrawImage mr img x y =
     (case DrawImage (fb mr) img x y of
        (oc, f) \<Rightarrow>
          (if oc = Panicked then Panic else NoError,
           mr\<lparr>fb := f, fb_calls := fb_calls mr @ [CallDrawImage x y]\<rparr>))"

definition InvalidateCache :: "MenuRenderer \<Rightarrow> MenuRenderer" where
  "InvalidateCache mr = mr\<lparr>needsClear := True, staticRendered := False, lastContent := []\<rparr>"

text \<open>\<open>fmt.Sprintf("%s|%s|%d|%s|%s|%d|%s|%s|%s", ...)\<close>\<close>

definition generateNewMainMenuContent :: "SystemInfo \<Rightarrow> gostring" where
  "generateNewMainMenuContent sysInfo =
     Uptime sysInfo @ asc ''|'' @ CPUModel sysInfo @ asc ''|'' @ fmt_d (CPUCores sysInfo)
     @ asc ''|'' @ MemoryUsage sysInfo @ asc ''|'' @ DiskSize sysInfo @ asc ''|''
     @ fmt_d (DiskCount sysInfo) @ asc ''|'' @ CurrentTime sysInfo @ asc ''|''
     @ IPAddress sysInfo @ asc ''|'' @ QianKunCloudID sysInfo"

definition renderTextAt :: "Env \<Rightarrow> MenuRenderer \<Rightarrow> gostring \<Rightarrow> int \<Rightarrow> int \<Rightarrow> result \<times> MenuRenderer" where
  "renderTextAt env mr text x y =
     (if text = [] then (NoError, mr)
      else (case RenderText env text of
              Inl err \<Rightarrow>
                (Error (asc ''failed to render text '' @ [39] @ text @ [39] @ asc '': '' @ err), mr)
            | Inr textImg \<Rightarrow> fb_DrawImage mr textImg x y))"

text \<open>
  \<open>for _, line := range lines { if err := mr.renderTextAt(line, 20, y); err != nil
  { return err }; y += step }\<close>; the result carries the final \<open>y\<close>.
\<close>

fun renderLines :: "Env \<Rightarrow> MenuRenderer \<Rightarrow> gostring list \<Rightarrow> int \<Rightarrow> int
                     \<Rightarrow> result \<times> MenuRenderer \<times> int" where
  "renderLines env mr [] y step = (NoError, mr, y)"
| "renderLines env mr (line # lines) y step =
     (case renderTextAt env mr line 20 y of
        (NoError, mr') \<Rightarrow> renderLines env mr' lines (i64 (y + step)) step
      | (r, mr') \<Rightarrow> (r, mr', y))"

text \<open>The colours \<open>color.RGBA{255, 255, 255, 255}\<close> and \<open>color.RGBA{0, 0, 0, 255}\<close>.\<close>

definition white :: Color where
  "white = \<lparr>red = 0xFFFF, green = 0xFFFF, blue = 0xFFFF, alpha = 0xFFFF\<rparr>"

definition black :: Color where
  "black = \<lparr>red = 0, green = 0, blue = 0, alpha = 0xFFFF\<rparr>"

definition transparent :: Color where
  "transparent = \<lparr>red = 0, green = 0, blue = 0, alpha = 0\<rparr>"

text \<open>
  The image \<open>renderQRCode\<close> builds: a white square with a border of 8 pixels, each black
  module a block of 4 by 4 black pixels.
\<close>

definition qr_image :: "int \<Rightarrow> (int \<Rightarrow> int \<Rightarrow> bool) \<Rightarrow> Image" where
  "qr_image qrSize isBlack =
     (let pixelSize = 4;
          border = 2 * pixelSize;
          total = i64 (i64 (qrSize * pixelSize) + border * 2)
      in \<lparr>MinX = 0, MinY = 0, MaxX = max 0 total, MaxY = max 0 total,
          At = (\<lambda>x y.
                 if 0 \<le> x \<and> x < total \<and> 0 \<le> y \<and> y < total then
                   (if border \<le> x \<and> x < border + qrSize * pixelSize \<and>
                       border \<le> y \<and> y < border + qrSize * pixelSize \<and>
                       isBlack ((x - border) div pixelSize) ((y - border) div pixelSize)
                    then black else white)
                 else transparent)\<rparr>)"

definition renderQRCode :: "Env \<Rightarrow> MenuRenderer \<Rightarrow> gostring \<Rightarrow> int \<Rightarrow> int
                             \<Rightarrow> result \<times> MenuRenderer \<times> int" where
  "renderQRCode env mr content x y =
     (case renderTextAt env mr [0x6B64, 0x5904, 0x4E3A, 0x4E8C, 0x7EF4, 0x7801, 0x5C55, 0x793A, 0xFF0C, 0x4E8C,
        0x7EF4, 0x7801, 0x7684, 0x503C, 0x4E3A, 0x8BBE, 0x5907, 0x49, 0x44] x y of
        (NoError, mr1) \<Rightarrow>
          (let charHeight = snd (GetTextBounds env [0x5B57]);
               currentY = i64 (y + i64 (charHeight + 10))
           in case qr_Encode env content of
                Inl err \<Rightarrow>
                  (case renderTextAt env mr1 ([0x4E8C, 0x7EF4, 0x7801, 0x751F, 0x6210, 0x5931, 0x8D25, 0x3A, 0x20] @ err) x currentY of
                     (NoError, mr2) \<Rightarrow> (NoError, mr2, i64 (currentY + charHeight))
                   | (r, mr2) \<Rightarrow> (r, mr2, currentY))
              | Inr (qrSize, isBlack) \<Rightarrow>
                  (let qrImg = qr_image qrSize isBlack;
                       totalHeight = i64 (i64 (qrSize * 4) + 8 * 2)
                   in case fb_DrawImage mr1 qrImg x currentY of
                        (Panic, mr2) \<Rightarrow> (Panic, mr2, currentY)
                      | (r, mr2) \<Rightarrow> (NoError, mr2, i64 (currentY + totalHeight))))
      | (r, mr1) \<Rightarrow> (r, mr1, y))"

definition separatorLine :: gostring where
  "separatorLine = asc ''================================''"

definition separatorLine2 :: gostring where
  "separatorLine2 = asc ''===============================''"

definition systemContent :: "SystemInfo \<Rightarrow> gostring list" where
  "systemContent sysInfo =
     [[0x64CD, 0x4F5C, 0x7CFB, 0x7EDF, 0x8FD0, 0x884C, 0x65F6, 0x95F4, 0xFF1A] @ Uptime sysInfo,
      [0x5904, 0x7406, 0x5668, 0x578B, 0x53F7, 0xFF1A] @ CPUModel sysInfo @ asc '' *'' @ fmt_d (CPUCores sysInfo) @ [0x20, 0x6838],
      [0x5185, 0x5B58, 0x4F7F, 0x7528, 0x72B6, 0x6001, 0xFF1A] @ MemoryUsage sysInfo,
      [0x7CFB, 0x7EDF, 0x5B89, 0x88C5, 0x78C1, 0x76D8, 0x5927, 0x5C0F, 0xFF1A] @ DiskSize sysInfo @ [0xFF08, 0x5171] @ fmt_d (DiskCount sysInfo)
        @ [0x4E2A, 0x78C1, 0x76D8, 0xFF09],
      [0x5F53, 0x524D, 0x7CFB, 0x7EDF, 0x65F6, 0x95F4, 0xFF1A] @ CurrentTime sysInfo,
      [0x8BBE, 0x5907, 0x49, 0x50, 0x5730, 0x5740, 0xFF1A] @ IPAddress sysInfo,
      [],
      [0x8BBE, 0x5907, 0x49, 0x44, 0xFF1A] @ QianKunCloudID sysInfo]"

definition customerServiceContent :: "gostring list" where
  "customerServiceContent =
     [[0x5982, 0x6709, 0x95EE, 0x9898, 0x8BF7, 0x54A8, 0x8BE2, 0x6280, 0x672F, 0x5BA2,
        0x670D, 0xFF1A, 0x5FAE, 0x4FE1, 0xFF1A, 0x79, 0x6F, 0x75, 0x72, 0x2D, 0x73, 0x65,
        0x72, 0x76, 0x69, 0x63, 0x65, 0x2D, 0x77, 0x65, 0x63, 0x68, 0x61, 0x74],
      [],
      [0x6309, 0x56DE, 0x8F66, 0x952E, 0x8FDB, 0x5165, 0x914D, 0x7F6E, 0x83DC, 0x5355]]"

definition renderNewMainMenu :: "Env \<Rightarrow> MenuRenderer \<Rightarrow> SystemInfo \<Rightarrow> result \<times> MenuRenderer" where
  "renderNewMainMenu env mr sysInfo =
     (let charHeight = snd (GetTextBounds env [0x5B57]);
          y0 = i64 (charHeight + 10)
      in case renderLines env mr [[0x7CFB, 0x7EDF, 0x4FE1, 0x606F], separatorLine] y0 (i64 (charHeight + 5)) of
           (NoError, mr1, y1) \<Rightarrow>
             (case renderLines env mr1 (systemContent sysInfo) y1 (i64 (charHeight + 3)) of
                (NoError, mr2, y2) \<Rightarrow>
                  (case renderTextAt env mr2 separatorLine 20 y2 of
                     (NoError, mr3) \<Rightarrow>
                       (let y3 = i64 (y2 + i64 (charHeight + 10));
                            (r4, mr4, y4) =
                              (if QianKunCloudID sysInfo \<noteq> [] \<and>
                                  QianKunCloudID sysInfo \<noteq> [0x672A, 0x83B7, 0x53D6, 0x5230]
                               then (case renderQRCode env mr3 (QianKunCloudID sysInfo) 20 y3 of
                                       (r, m, qrY) \<Rightarrow> (r, m, i64 (qrY + 20)))
                               else (case renderTextAt env mr3
                                            [0x4E8C, 0x7EF4, 0x7801, 0x751F, 0x6210, 0x5931, 0x8D25, 0xFF1A, 0x65E0, 0x6CD5,
        0x83B7, 0x53D6, 0x4E7E, 0x5764, 0x4E91, 0x8BBE, 0x5907, 0x49, 0x44] 20 y3 of
                                       (r, m) \<Rightarrow> (r, m, i64 (y3 + i64 (charHeight + 20)))))
                        in if r4 \<noteq> NoError then (r4, mr4)
                           else (case renderTextAt env mr4 separatorLine2 20 y4 of
                                   (NoError, mr5) \<Rightarrow>
                                     (case renderLines env mr5 customerServiceContent
                                             (i64 (y4 + i64 (charHeight + 10)))
                                             (i64 (charHeight + 3)) of
                                        (r, mr6, y6) \<Rightarrow> (r, mr6))
                                 | (r, mr5) \<Rightarrow> (r, mr5)))
                   | (r, mr3) \<Rightarrow> (r, mr3))
              | (r, mr2, y2) \<Rightarrow> (r, mr2))
         | (r, mr1, y1) \<Rightarrow> (r, mr1))"

definition RenderMainMenu :: "Env \<Rightarrow> MenuRenderer \<Rightarrow> SystemInfo \<Rightarrow> result \<times> MenuRenderer" where
  "RenderMainMenu env mr sysInfo =
     (let currentContent = generateNewMainMenuContent sysInfo
      in if currentContent = lastContent mr \<and> staticRendered mr then (NoError, mr)
         else
           let mr1 = (fb_Clear mr)\<lparr>needsClear := False\<rparr>
           in case renderNewMainMenu env mr1 sysInfo of
                (NoError, mr2) \<Rightarrow>
                  (NoError, mr2\<lparr>lastContent := currentContent, staticRendered := True\<rparr>)
              | (r, mr2) \<Rightarrow> (r, mr2))"

definition generateConfigMenuContent :: gostring where
  "generateConfigMenuContent =
     asc ''============================'' @ [10] @
     [0x914D, 0x7F6E, 0x83DC, 0x5355] @ [10] @
     asc ''============================'' @ [10] @
     [0x31, 0x2E, 0x20, 0x67E5, 0x770B, 0x7F51, 0x5361, 0x4FE1, 0x606F] @ [10] @
     [0x32, 0x2E, 0x20, 0x91CD, 0x542F, 0x7CFB, 0x7EDF, 0x670D, 0x52A1] @ [10] @
     [0x33, 0x2E, 0x20, 0x68C0, 0x6D4B, 0x8BBE, 0x5907, 0x7F51, 0x7EDC] @ [10] @
     [0x34, 0x2E, 0x20, 0x91CD, 0x542F, 0x8BBE, 0x5907] @ [10] @
     [0x35, 0x2E, 0x20, 0x5173, 0x673A] @ [10] @
     asc ''============================'' @ [10] @
     [0x8BF7, 0x8F93, 0x5165, 0x9009, 0x9879, 0x28, 0x31, 0x2D, 0x35, 0x29, 0xFF0C,
        0x6309, 0x71, 0x8FD4, 0x56DE, 0x9996, 0x9875]"

text \<open>
  The tail common to \<open>RenderConfigMenu\<close>, \<open>RenderNetworkInfo\<close> and \<open>RenderMessage\<close>:
  split the text into lines, rasterise them, draw the image at (20, 20).
\<close>

definition draw_text_block :: "Env \<Rightarrow> MenuRenderer \<Rightarrow> gostring \<Rightarrow> gostring
                                \<Rightarrow> result \<times> MenuRenderer" where
  "draw_text_block env mr what content =
     (case RenderMultilineText env (split_lines content) of
        Inl err \<Rightarrow> (Error (asc ''failed to render '' @ what @ asc '': '' @ err), mr)
      | Inr img \<Rightarrow> fb_DrawImage mr img 20 20)"

definition RenderConfigMenu :: "Env \<Rightarrow> MenuRenderer \<Rightarrow> result \<times> MenuRenderer" where
  "RenderConfigMenu env mr =
     draw_text_block env ((fb_Clear mr)\<lparr>needsClear := True, staticRendered := False\<rparr>)
       (asc ''config menu'') generateConfigMenuContent"

definition RenderMessage :: "Env \<Rightarrow> MenuRenderer \<Rightarrow> gostring \<Rightarrow> result \<times> MenuRenderer" where
  "RenderMessage env mr message = draw_text_block env (fb_Clear mr) (asc ''message'') message"

fun ipv6_lines :: "gostring list \<Rightarrow> gostring" where
  "ipv6_lines [] = []"
| "ipv6_lines (ip # ips) = asc ''    - '' @ ip @ [10] @ ipv6_lines ips"

fun interface_blocks :: "NetworkInterface list \<Rightarrow> gostring" where
  "interface_blocks [] = []"
| "interface_blocks (iface # ifaces) =
     [0x63A5, 0x53E3, 0x540D, 0x79F0, 0x3A, 0x20] @ Name iface @ [10] @
     [0x20, 0x20, 0x72B6, 0x6001, 0x3A, 0x20] @ Status iface @ [10] @
     [0x20, 0x20, 0x4D, 0x41, 0x43, 0x5730, 0x5740, 0x3A, 0x20] @ MAC iface @ [10] @
     [0x20, 0x20, 0x49, 0x50, 0x76, 0x34, 0x5730, 0x5740, 0x3A, 0xA] @
     (if IPv4Address iface \<noteq> [] then asc ''    - '' @ IPv4Address iface @ [10]
      else [0x20, 0x20, 0x20, 0x20, 0x2D, 0x20, 0x28, 0x672A, 0x914D, 0x7F6E, 0x29, 0xA]) @
     [0x20, 0x20, 0x49, 0x50, 0x76, 0x36, 0x5730, 0x5740, 0x3A, 0xA] @
     (if length (IPv6Addresses iface) > 0 then ipv6_lines (IPv6Addresses iface)
      else [0x20, 0x20, 0x20, 0x20, 0x2D, 0x20, 0x28, 0x672A, 0x914D, 0x7F6E, 0x29, 0xA]) @
     asc ''----------------------------------------'' @ [10] @
     interface_blocks ifaces"

definition generateNetworkInfoContent :: "NetworkInterface list \<Rightarrow> gostring" where
  "generateNetworkInfoContent interfaces =
     (if length interfaces = 0 then [0x672A, 0x627E, 0x5230, 0x4EFB, 0x4F55, 0x7269, 0x7406, 0x7F51, 0x7EDC, 0x63A5,
        0x53E3, 0x3002, 0xA, 0xA, 0x6309, 0x4EFB, 0x610F, 0x952E, 0x8FD4, 0x56DE]
      else [0x7269, 0x7406, 0x7F51, 0x5361, 0x4FE1, 0x606F, 0x3A, 0xA] @
           asc ''========================================'' @ [10] @
           interface_blocks interfaces @
           [0xA, 0x6309, 0x4EFB, 0x610F, 0x952E, 0x8FD4, 0x56DE])"

definition RenderNetworkInfo :: "Env \<Rightarrow> MenuRenderer \<Rightarrow> NetworkInterface list
                                  \<Rightarrow> result \<times> MenuRenderer" where
  "RenderNetworkInfo env mr interfaces =
     draw_text_block env (fb_Clear mr) (asc ''network info'')
       (generateNetworkInfoContent interfaces)"

section \<open>Waiting for events\<close>

text \<open>
  A wait that has no timer: it looks at each millisecond from \<open>t\<close> on, until an event
  that \<open>pick\<close> accepts arrives. It may never return (\<open>None\<close>).
\<close>

partial_function (option) await :: "(event \<Rightarrow> 'r option) \<Rightarrow> (nat \<Rightarrow> event option) \<Rightarrow> nat
                                     \<Rightarrow> ('r \<times> nat) option" where
  "await pick s t =
     (case s t of
        None \<Rightarrow> await pick s (Suc t)
      | Some e \<Rightarrow> (case pick e of None \<Rightarrow> await pick s (Suc t) | Some r \<Rightarrow> Some (r, t)))"

declare await.simps [code]

text \<open>
  A wait with a timer of \<open>n\<close> milliseconds: the first accepted event among the next
  \<open>n\<close> milliseconds, or \<open>None\<close> when the timer fires first.
\<close>

fun await_for :: "(event \<Rightarrow> 'r option) \<Rightarrow> (nat \<Rightarrow> event option) \<Rightarrow> nat \<Rightarrow> nat
                   \<Rightarrow> ('r \<times> nat) option" where
  "await_for pick s t 0 = None"
| "await_for pick s t (Suc n) =
     (case s t of
        None \<Rightarrow> await_for pick s (Suc t) n
      | Some e \<Rightarrow> (case pick e of None \<Rightarrow> await_for pick s (Suc t) n | Some r \<Rightarrow> Some (r, t)))"

text \<open>
  What a \<open>select\<close> on \<open>keyEventChan\<close> and \<open>ctx.Done()\<close> takes: a key (the listener
  forwards the bytes it reads) or the cancellation.
\<close>

datatype selected = GotKey byte | GotDone

fun pick_select :: "event \<Rightarrow> selected option" where
  "pick_select (KeyByte k) = Some (GotKey k)"
| "pick_select CtxDone = Some GotDone"
| "pick_select (ReadError e) = None"
| "pick_select ReadEOF = None"

text \<open>
  The \<open>select\<close> when the context is cancelled already: \<open>ctx.Done()\<close> is ready, so the
  \<open>select\<close> does not wait. It takes the cancellation, unless a key is ready at that very
  time and the runtime picks it. The time returned is the one at which the program goes
  on: an event taken at \<open>t\<close> is gone at \<open>Suc t\<close>.
\<close>

definition select_ready :: "(nat \<Rightarrow> event option) \<Rightarrow> (nat \<Rightarrow> bool) \<Rightarrow> nat \<Rightarrow> selected \<times> nat" where
  "select_ready s takes_key t =
     (case s t of
        Some (KeyByte k) \<Rightarrow> if takes_key t then (GotKey k, Suc t) else (GotDone, t)
      | _ \<Rightarrow> (GotDone, t))"

text \<open>
  The \<open>select\<close> on \<open>keyEventChan\<close> and \<open>ctx.Done()\<close>, without a timer (it may block for
  ever, \<open>None\<close>) and with a timer of \<open>n\<close> milliseconds (\<open>None\<close> when the timer fires).
\<close>

definition select_key_or_done :: "(nat \<Rightarrow> event option) \<Rightarrow> (nat \<Rightarrow> bool) \<Rightarrow> bool \<Rightarrow> nat
                                   \<Rightarrow> (selected \<times> nat) option" where
  "select_key_or_done s takes_key is_cancelled t =
     (if is_cancelled then Some (select_ready s takes_key t)
      else map_option (\<lambda>(r, t'). (r, Suc t')) (await pick_select s t))"

definition select_key_or_done_for :: "(nat \<Rightarrow> event option) \<Rightarrow> (nat \<Rightarrow> bool) \<Rightarrow> bool \<Rightarrow> nat \<Rightarrow> nat
                                       \<Rightarrow> (selected \<times> nat) option" where
  "select_key_or_done_for s takes_key is_cancelled t n =
     (if is_cancelled then Some (select_ready s takes_key t)
      else map_option (\<lambda>(r, t'). (r, Suc t')) (await_for pick_select s t n))"

text \<open>
  What a blocking \<open>Read\<close> of one byte from the terminal takes. At the end of the file
  \<open>Read\<close> answers the error \<open>io.EOF\<close>, which \<open>ReadKey\<close> wraps like every other read
  error.
\<close>

fun pick_read :: "event \<Rightarrow> (byte \<times> gostring option) option" where
  "pick_read (KeyByte k) = Some (k, None)"
| "pick_read (ReadError e) = Some (0, Some ([0x8BFB, 0x53D6, 0x952E, 0x76D8, 0x8F93, 0x5165, 0x5931, 0x8D25, 0x3A, 0x20] @ e))"
| "pick_read ReadEOF = Some (0, Some ([0x8BFB, 0x53D6, 0x952E, 0x76D8, 0x8F93, 0x5165, 0x5931, 0x8D25, 0x3A, 0x20] @ asc ''EOF''))"
| "pick_read CtxDone = None"

text \<open>\<open>KeyboardInput.ReadKey\<close>: the blocking read. It has no timer.\<close>

definition ReadKey :: "Env \<Rightarrow> KeyboardInput \<Rightarrow> nat \<Rightarrow> ((byte \<times> gostring option) \<times> nat) option" where
  "ReadKey env ki t =
     (if closed_ki ki \<or> device_ki ki = None then Some ((0, Some [0x952E, 0x76D8, 0x8BBE, 0x5907, 0x5DF2, 0x5173, 0x95ED]), t)
      else map_option (\<lambda>(r, t'). (r, Suc t')) (await pick_read (sched env) t))"

section \<open>cmd/main: the orchestrator (the revision with the exit-disabled switch)\<close>

text \<open>The lines the orchestrator logs, one constructor for each \<open>log.Printf\<close>.\<close>

datatype log_entry =
    LogMonitorStarted
  | LogExitSignal
  | LogRefreshFailed gostring
  | LogEnterKey
  | LogConfigMenuFailed gostring
  | LogReturnRefreshFailed gostring
  | LogCtrlExit byte gostring
  | LogCtrlIgnored byte gostring
  | LogEnteredConfigMenu
  | LogLeftConfigMenu
  | LogChoiceFailed gostring
  | LogConfigMenuTimeout
  | LogListenerPanic
  | LogListenerError kb_error

text \<open>
  \<open>cancelled\<close> tells whether the main goroutine has called \<open>app.cancel()\<close> (a call by
  another goroutine is an event of the environment), \<open>ticker_active\<close> whether the ticker
  of \<open>Run\<close> is running, \<open>logs\<close> is the log written so far.
  \<open>app.fb\<close> is the frame buffer of \<open>menuRenderer\<close>.
\<close>

record Application =
  menuRenderer :: MenuRenderer
  keyboard :: KeyboardInput
  cancelled :: bool
  running :: bool
  disableCtrlC :: bool
  ticker_active :: bool
  logs :: "log_entry list"

definition log_Printf :: "Application \<Rightarrow> log_entry \<Rightarrow> Application" where
  "log_Printf app entry = app\<lparr>logs := logs app @ [entry]\<rparr>"

text \<open>
  Whether \<open>ctx.Done()\<close> is ready at a time: the context is cancelled when the main
  goroutine has called \<open>app.cancel()\<close>, or when another goroutine has done so at an
  earlier time.
\<close>

fun done_before :: "(nat \<Rightarrow> event option) \<Rightarrow> nat \<Rightarrow> bool" where
  "done_before s 0 = False"
| "done_before s (Suc t) = (s t = Some CtxDone \<or> done_before s t)"

definition ctx_done :: "Env \<Rightarrow> Application \<Rightarrow> nat \<Rightarrow> bool" where
  "ctx_done env app t = (cancelled app \<or> done_before (sched env) t)"

text \<open>
  \<open>handleControlKey\<close>: the four cases of its \<open>switch\<close> (3 Ctrl+C, 26 Ctrl+Z, 28 Ctrl+\,
  4 Ctrl+D) have the same body; the key is kept in the log entry.
\<close>

definition handleControlKey :: "Application \<Rightarrow> byte \<Rightarrow> gostring \<Rightarrow> bool \<times> Application" where
  "handleControlKey app key location =
     (if key = 3 \<or> key = 26 \<or> key = 28 \<or> key = 4 then
        (if disableCtrlC app then (False, log_Printf app (LogCtrlIgnored key location))
         else (True, (log_Printf app (LogCtrlExit key location))\<lparr>cancelled := True\<rparr>))
      else (False, app))"

definition showMainMenu :: "Env \<Rightarrow> Application \<Rightarrow> nat \<Rightarrow> result \<times> Application" where
  "showMainMenu env app t =
     (case RenderMainMenu env (menuRenderer app) (GetSystemInfo env t) of
        (r, mr) \<Rightarrow> (r, app\<lparr>menuRenderer := mr\<rparr>))"

definition showConfigMenu :: "Env \<Rightarrow> Application \<Rightarrow> result \<times> Application" where
  "showConfigMenu env app =
     (case RenderConfigMenu env (menuRenderer app) of
        (r, mr) \<Rightarrow> (r, app\<lparr>menuRenderer := mr\<rparr>))"

text \<open>
  The loop that ends \<open>showNetworkInfo\<close>, \<open>showSystemServiceMenu\<close>,
  \<open>testNetworkConnectivity\<close> and \<open>showMessage\<close>: read a key, pass it to
  \<open>handleControlKey\<close>, return \<open>nil\<close> either way.
\<close>

definition wait_any_key :: "Env \<Rightarrow> Application \<Rightarrow> gostring \<Rightarrow> nat
                             \<Rightarrow> (result \<times> Application \<times> nat) option" where
  "wait_any_key env app location t =
     (case ReadKey env (keyboard app) t of
        None \<Rightarrow> None
      | Some ((key, Some err), t') \<Rightarrow> Some (Error err, app, t')
      | Some ((key, None), t') \<Rightarrow>
          (case handleControlKey app key location of
             (True, app') \<Rightarrow> Some (NoError, app', t')
           | (False, app') \<Rightarrow> Some (NoError, app', t')))"

definition showMessage :: "Env \<Rightarrow> Application \<Rightarrow> gostring \<Rightarrow> nat
                            \<Rightarrow> (result \<times> Application \<times> nat) option" where
  "showMessage env app message t =
     (case RenderMessage env (menuRenderer app) (message @ [0xA, 0xA, 0x6309, 0x4EFB, 0x610F, 0x952E, 0x7EE7, 0x7EED]) of
        (NoError, mr) \<Rightarrow> wait_any_key env (app\<lparr>menuRenderer := mr\<rparr>) [0x6D88, 0x606F, 0x9875, 0x9762] t
      | (r, mr) \<Rightarrow> Some (r, app\<lparr>menuRenderer := mr\<rparr>, t))"

definition showNetworkInfo :: "Env \<Rightarrow> Application \<Rightarrow> nat \<Rightarrow> (result \<times> Application \<times> nat) option" where
  "showNetworkInfo env app t =
     (case GetNetworkInterfaces env of
        Inl err \<Rightarrow> showMessage env app ([0x83B7, 0x53D6, 0x7F51, 0x5361, 0x4FE1, 0x606F, 0x5931, 0x8D25, 0x3A, 0x20] @ err) t
      | Inr interfaces \<Rightarrow>
          (case RenderNetworkInfo env (menuRenderer app) interfaces of
             (NoError, mr) \<Rightarrow> wait_any_key env (app\<lparr>menuRenderer := mr\<rparr>) [0x7F51, 0x5361, 0x4FE1, 0x606F, 0x9875, 0x9762] t
           | (r, mr) \<Rightarrow> Some (r, app\<lparr>menuRenderer := mr\<rparr>, t)))"

definition showSystemServiceMenu :: "Env \<Rightarrow> Application \<Rightarrow> nat
                                      \<Rightarrow> (result \<times> Application \<times> nat) option" where
  "showSystemServiceMenu env app t =
     (case RenderMessage env (menuRenderer app)
             [0x7CFB, 0x7EDF, 0x670D, 0x52A1, 0x7BA1, 0x7406, 0xA, 0xA, 0x6B64, 0x529F, 0x80FD,
        0x6682, 0x65F6, 0x672A, 0x5B9E, 0x73B0, 0xA, 0x5C06, 0x6765, 0x53EF, 0x4EE5,
        0x6DFB, 0x52A0, 0x4EE5, 0x4E0B, 0x529F, 0x80FD, 0xFF1A, 0xA, 0x2D, 0x20, 0x91CD,
        0x542F, 0x7F51, 0x7EDC, 0x670D, 0x52A1, 0xA, 0x2D, 0x20, 0x91CD, 0x542F, 0x53,
        0x53, 0x48, 0x670D, 0x52A1, 0xA, 0x2D, 0x20, 0x91CD, 0x542F, 0x9632, 0x706B,
        0x5899, 0x670D, 0x52A1, 0xA, 0x2D, 0x20, 0x67E5, 0x770B, 0x670D, 0x52A1, 0x72B6,
        0x6001, 0xA, 0xA, 0x6309, 0x4EFB, 0x610F, 0x952E, 0x8FD4, 0x56DE] of
        (NoError, mr) \<Rightarrow> wait_any_key env (app\<lparr>menuRenderer := mr\<rparr>) [0x7CFB, 0x7EDF, 0x670D, 0x52A1, 0x83DC, 0x5355, 0x9875, 0x9762] t
      | (r, mr) \<Rightarrow> Some (r, app\<lparr>menuRenderer := mr\<rparr>, t))"

text \<open>
  The progress callback of \<open>testNetworkConnectivity\<close>, once for each call the test
  makes; it drops the error of \<open>RenderMessage\<close>.
\<close>

fun progressCallbacks :: "Env \<Rightarrow> MenuRenderer \<Rightarrow> (gostring \<times> int \<times> int \<times> gostring) list
                           \<Rightarrow> result \<times> MenuRenderer" where
  "progressCallbacks env mr [] = (NoError, mr)"
| "progressCallbacks env mr ((target, cur, tot, message) # calls) =
     (case RenderMessage env mr
             ([0x7F51, 0x7EDC, 0x8FDE, 0x901A, 0x6027, 0x6D4B, 0x8BD5, 0x8FDB, 0x5EA6, 0x3A, 0x20] @ fmt_d cur @ asc ''/'' @ fmt_d tot @
              [0xA, 0xA, 0x5F53, 0x524D, 0x6D4B, 0x8BD5, 0x3A, 0x20] @ target @ [10] @ message) of
        (Panic, mr') \<Rightarrow> (Panic, mr')
      | (r, mr') \<Rightarrow> progressCallbacks env mr' calls)"

text \<open>
  \<open>system.TestAdvancedNetworkConnectivity\<close> makes its callbacks and returns its results
  with a \<open>nil\<close> error, always.
\<close>

definition TestAdvancedNetworkConnectivity :: "Env \<Rightarrow> MenuRenderer
     \<Rightarrow> result \<times> MenuRenderer \<times> gostring option" where
  "TestAdvancedNetworkConnectivity env mr =
     (case progressCallbacks env mr (netTestProgress env) of (r, mr') \<Rightarrow> (r, mr', None))"

definition testNetworkConnectivity :: "Env \<Rightarrow> Application \<Rightarrow> nat
                                        \<Rightarrow> (result \<times> Application \<times> nat) option" where
  "testNetworkConnectivity env app t =
     (case RenderMessage env (menuRenderer app)
             [0x6B63, 0x5728, 0x521D, 0x59CB, 0x5316, 0x7F51, 0x7EDC, 0x8FDE, 0x901A, 0x6027,
        0x6D4B, 0x8BD5, 0x2E, 0x2E, 0x2E, 0xA, 0xA, 0x8BF7, 0x7A0D, 0x5019, 0x2E, 0x2E, 0x2E] of
        (NoError, mr) \<Rightarrow>
          (case TestAdvancedNetworkConnectivity env mr of
             (Panic, mr1, err) \<Rightarrow> Some (Panic, app\<lparr>menuRenderer := mr1\<rparr>, t + netTestDuration env)
           | (r, mr1, Some err) \<Rightarrow>
               (case RenderMessage env mr1
                       ([0x7F51, 0x7EDC, 0x6D4B, 0x8BD5, 0x6267, 0x884C, 0x5931, 0x8D25, 0x3A, 0x20] @ err @ [0xA, 0xA, 0x6309, 0x4EFB, 0x610F, 0x952E, 0x8FD4, 0x56DE]) of
                  (NoError, mr2) \<Rightarrow>
                    (case ReadKey env (keyboard app) (t + netTestDuration env) of
                       None \<Rightarrow> None
                     | Some ((key, Some rerr), t') \<Rightarrow>
                         Some (Error rerr, app\<lparr>menuRenderer := mr2\<rparr>, t')
                     | Some ((key, None), t') \<Rightarrow>
                         Some (NoError, app\<lparr>menuRenderer := mr2\<rparr>, t'))
                | (r2, mr2) \<Rightarrow> Some (r2, app\<lparr>menuRenderer := mr2\<rparr>, t + netTestDuration env))
           | (r, mr1, None) \<Rightarrow>
               (case RenderMessage env mr1 (netTestResultsText env) of
                  (NoError, mr2) \<Rightarrow>
                    wait_any_key env (app\<lparr>menuRenderer := mr2\<rparr>) [0x7F51, 0x7EDC, 0x6D4B, 0x8BD5, 0x7ED3, 0x679C, 0x9875, 0x9762]
                      (t + netTestDuration env)
                | (r2, mr2) \<Rightarrow> Some (r2, app\<lparr>menuRenderer := mr2\<rparr>, t + netTestDuration env)))
      | (r, mr) \<Rightarrow> Some (r, app\<lparr>menuRenderer := mr\<rparr>, t))"

text \<open>
  \<open>confirmAndReboot\<close> and \<open>confirmAndShutdown\<close> differ in their texts and in the system
  action; \<open>time.Sleep(2 * time.Second)\<close> adds 2000 to the time.
\<close>

definition confirm_and :: "Env \<Rightarrow> Application \<Rightarrow> gostring \<Rightarrow> gostring \<Rightarrow> gostring
                            \<Rightarrow> gostring option \<Rightarrow> nat \<Rightarrow> (result \<times> Application \<times> nat) option" where
  "confirm_and env app question location doing action t =
     (case RenderMessage env (menuRenderer app) question of
        (NoError, mr) \<Rightarrow>
          (let app1 = app\<lparr>menuRenderer := mr\<rparr>
           in case ReadKey env (keyboard app1) t of
                None \<Rightarrow> None
              | Some ((key, Some err), t') \<Rightarrow> Some (Error err, app1, t')
              | Some ((key, None), t') \<Rightarrow>
                  (case handleControlKey app1 key location of
                     (True, app2) \<Rightarrow> Some (NoError, app2, t')
                   | (False, app2) \<Rightarrow>
                       if key = 121 \<or> key = 89 then
                         (case RenderMessage env (menuRenderer app2) doing of
                            (NoError, mr3) \<Rightarrow>
                              Some (case action of None \<Rightarrow> NoError | Some err \<Rightarrow> Error err,
                                    app2\<lparr>menuRenderer := mr3\<rparr>, t' + 2000)
                          | (r, mr3) \<Rightarrow> Some (r, app2\<lparr>menuRenderer := mr3\<rparr>, t'))
                       else Some (NoError, app2, t')))
      | (r, mr) \<Rightarrow> Some (r, app\<lparr>menuRenderer := mr\<rparr>, t))"

definition confirmAndReboot :: "Env \<Rightarrow> Application \<Rightarrow> nat \<Rightarrow> (result \<times> Application \<times> nat) option" where
  "confirmAndReboot env app t =
     confirm_and env app [0x786E, 0x8BA4, 0x8981, 0x91CD, 0x542F, 0x8BBE, 0x5907, 0x5417, 0xFF1F, 0xA, 0xA,
        0x6309, 0x20, 0x27, 0x79, 0x27, 0x20, 0x786E, 0x8BA4, 0x91CD, 0x542F, 0xA, 0x6309,
        0x4EFB, 0x610F, 0x5176, 0x4ED6, 0x952E, 0x53D6, 0x6D88]
       [0x91CD, 0x542F, 0x786E, 0x8BA4, 0x9875, 0x9762] [0x6B63, 0x5728, 0x91CD, 0x542F, 0x8BBE, 0x5907, 0x2E, 0x2E, 0x2E] (RebootSystem env) t"

definition confirmAndShutdown :: "Env \<Rightarrow> Application \<Rightarrow> nat \<Rightarrow> (result \<times> Application \<times> nat) option" where
  "confirmAndShutdown env app t =
     confirm_and env app [0x786E, 0x8BA4, 0x8981, 0x5173, 0x673A, 0x5417, 0xFF1F, 0xA, 0xA, 0x6309, 0x20,
        0x27, 0x79, 0x27, 0x20, 0x786E, 0x8BA4, 0x5173, 0x673A, 0xA, 0x6309, 0x4EFB,
        0x610F, 0x5176, 0x4ED6, 0x952E, 0x53D6, 0x6D88]
       [0x5173, 0x673A, 0x786E, 0x8BA4, 0x9875, 0x9762] [0x6B63, 0x5728, 0x5173, 0x673A, 0x2E, 0x2E, 0x2E] (ShutdownSystem env) t"

definition handleMenuChoice :: "Env \<Rightarrow> Application \<Rightarrow> int \<Rightarrow> nat
                                 \<Rightarrow> (result \<times> Application \<times> nat) option" where
  "handleMenuChoice env app choice t =
     (if choice = 1 then showNetworkInfo env app t
      else if choice = 2 then showSystemServiceMenu env app t
      else if choice = 3 then testNetworkConnectivity env app t
      else if choice = 4 then confirmAndReboot env app t
      else if choice = 5 then confirmAndShutdown env app t
      else showMessage env app [0x65E0, 0x6548, 0x9009, 0x9879, 0xFF0C, 0x8BF7, 0x91CD, 0x65B0, 0x9009, 0x62E9] t)"

text \<open>
  One turn of the \<open>for\<close> loop of \<open>enterConfigMenu\<close>. Its \<open>select\<close> has two cases,
  a key and the cancellation, and no timer. The turn blocks for ever (\<open>None\<close>), returns
  from the function (\<open>Inl\<close>), or goes round again (\<open>Inr\<close>).
\<close>

definition configMenuTurn :: "Env \<Rightarrow> Application \<Rightarrow> nat
     \<Rightarrow> ((result \<times> Application \<times> nat) + (Application \<times> nat)) option" where
  "configMenuTurn env app t =
     (case showConfigMenu env app of
        (Error err, app1) \<Rightarrow> Some (Inl (Error ([0x663E, 0x793A, 0x914D, 0x7F6E, 0x83DC, 0x5355, 0x5931, 0x8D25, 0x3A, 0x20] @ err), app1, t))
      | (Panic, app1) \<Rightarrow> Some (Inl (Panic, app1, t))
      | (NoError, app1) \<Rightarrow>
          (case select_key_or_done (sched env) (select_takes_key env) (ctx_done env app1 t) t of
             None \<Rightarrow> None
           | Some (GotDone, t1) \<Rightarrow> Some (Inl (NoError, app1, t1))
           | Some (GotKey key, t1) \<Rightarrow>
               (case handleControlKey app1 key [0x914D, 0x7F6E, 0x83DC, 0x5355] of
                  (True, app2) \<Rightarrow> Some (Inl (NoError, app2, t1))
                | (False, app2) \<Rightarrow>
                    if key = 49 \<or> key = 50 \<or> key = 51 \<or> key = 52 \<or> key = 53 then
                      (case handleMenuChoice env app2 (uint (key - 48)) t1 of
                         None \<Rightarrow> None
                       | Some (NoError, app3, t3) \<Rightarrow> Some (Inr (app3, t3))
                       | Some (Panic, app3, t3) \<Rightarrow> Some (Inl (Panic, app3, t3))
                       | Some (Error err, app3, t3) \<Rightarrow>
                           (case showMessage env (log_Printf app3 (LogChoiceFailed err))
                                   ([0x64CD, 0x4F5C, 0x5931, 0x8D25, 0x3A, 0x20] @ err) t3 of
                              None \<Rightarrow> None
                            | Some (Panic, app4, t4) \<Rightarrow> Some (Inl (Panic, app4, t4))
                            | Some (r, app4, t4) \<Rightarrow> Some (Inr (app4, t4))))
                    else if key = 113 \<or> key = 81 \<or> key = 27
                    then Some (Inl (NoError, app2, t1))
                    else Some (Inr (app2, t1)))))"

partial_function (option) configMenuLoop :: "Env \<Rightarrow> Application \<Rightarrow> nat
                                              \<Rightarrow> (result \<times> Application \<times> nat) option" where
  "configMenuLoop env app t =
     (case configMenuTurn env app t of
        None \<Rightarrow> None
      | Some (Inl res) \<Rightarrow> Some res
      | Some (Inr (app', t')) \<Rightarrow> configMenuLoop env app' t')"

declare configMenuLoop.simps [code]

text \<open>
  \<open>enterConfigMenu\<close>: clear the running flag, stop the ticker, run the loop; the deferred
  function sets the flag, resets the ticker and logs, however the loop ends.
\<close>

definition enterConfigMenu :: "Env \<Rightarrow> Application \<Rightarrow> nat \<Rightarrow> (result \<times> Application \<times> nat) option" where
  "enterConfigMenu env app t =
     (case configMenuLoop env
             (log_Printf (app\<lparr>running := False, ticker_active := False\<rparr>) LogEnteredConfigMenu) t of
        None \<Rightarrow> None
      | Some (r, app', t') \<Rightarrow>
          Some (r, log_Printf (app'\<lparr>running := True, ticker_active := True\<rparr>) LogLeftConfigMenu, t'))"

text \<open>
  One turn of the \<open>for\<close>/\<open>select\<close> loop of \<open>Run\<close>, for the case the \<open>select\<close> took at
  time \<open>t\<close>; the turn either continues the loop or returns from \<open>Run\<close>.
\<close>

datatype run_case = CaseCtxDone | CaseTicker | CaseKey byte

datatype control = Continue | Return result

definition Run_step :: "Env \<Rightarrow> Application \<Rightarrow> run_case \<Rightarrow> nat \<Rightarrow> (control \<times> Application \<times> nat) option" where
  "Run_step env app c t =
     (case c of
        CaseCtxDone \<Rightarrow> Some (Return NoError, log_Printf app LogExitSignal, t)
      | CaseTicker \<Rightarrow>
          if running app then
            (case showMainMenu env (app\<lparr>menuRenderer := InvalidateCache (menuRenderer app)\<rparr>) t of
               (NoError, app1) \<Rightarrow> Some (Continue, app1, t)
             | (Error err, app1) \<Rightarrow> Some (Continue, log_Printf app1 (LogRefreshFailed err), t)
             | (Panic, app1) \<Rightarrow> Some (Return Panic, app1, t))
          else Some (Continue, app, t)
      | CaseKey key \<Rightarrow>
          if \<not> running app then Some (Continue, app, t)
          else if key = 10 \<or> key = 13 then
            (case enterConfigMenu env (log_Printf app LogEnterKey) t of
               None \<Rightarrow> None
             | Some (Panic, app1, t1) \<Rightarrow> Some (Return Panic, app1, t1)
             | Some (r, app1, t1) \<Rightarrow>
                 (let app2 = (case r of Error err \<Rightarrow> log_Printf app1 (LogConfigMenuFailed err)
                                      | _ \<Rightarrow> app1)
                  in case showMainMenu env
                            (app2\<lparr>menuRenderer := InvalidateCache (menuRenderer app2)\<rparr>) t1 of
                       (NoError, app3) \<Rightarrow> Some (Continue, app3, t1)
                     | (Error err, app3) \<Rightarrow>
                         Some (Continue, log_Printf app3 (LogReturnRefreshFailed err), t1)
                     | (Panic, app3) \<Rightarrow> Some (Return Panic, app3, t1)))
          else if key = 3 \<or> key = 26 \<or> key = 28 \<or> key = 4 then
            (if disableCtrlC app
             then Some (Continue, log_Printf app (LogCtrlIgnored key [0x4E3B, 0x9875, 0x9762]), t)
             else Some (Continue, (log_Printf app (LogCtrlExit key [0x4E3B, 0x9875, 0x9762]))\<lparr>cancelled := True\<rparr>, t))
          else Some (Continue, app, t))"






section \<open>cmd/main: the config menu of the revision before the switch\<close>

text \<open>
  One turn of the \<open>for\<close> loop of the earlier \<open>enterConfigMenu\<close>: its \<open>select\<close> has a third case,
  \<open>time.After(30 * time.Second)\<close>, made anew in every turn, and it does not look for
  control keys. Its
  \<open>handleMenuChoice\<close> and \<open>showMessage\<close> (which read keys without looking for control
  keys either) are parameters.
\<close>

definition configMenuTurn_timed ::
    "Env \<Rightarrow> (Application \<Rightarrow> int \<Rightarrow> nat \<Rightarrow> (result \<times> Application \<times> nat) option)
     \<Rightarrow> (Application \<Rightarrow> gostring \<Rightarrow> nat \<Rightarrow> (result \<times> Application \<times> nat) option)
     \<Rightarrow> Application \<Rightarrow> nat \<Rightarrow> ((result \<times> Application \<times> nat) + (Application \<times> nat)) option" where
  "configMenuTurn_timed env handleChoice showMsg app t =
     (case showConfigMenu env app of
        (Error err, app1) \<Rightarrow> Some (Inl (Error ([0x663E, 0x793A, 0x914D, 0x7F6E, 0x83DC, 0x5355, 0x5931, 0x8D25, 0x3A, 0x20] @ err), app1, t))
      | (Panic, app1) \<Rightarrow> Some (Inl (Panic, app1, t))
      | (NoError, app1) \<Rightarrow>
          (case select_key_or_done_for (sched env) (select_takes_key env) (ctx_done env app1 t) t 30000 of
             None \<Rightarrow> Some (Inl (NoError, log_Printf app1 LogConfigMenuTimeout, t + 30000))
           | Some (GotDone, t1) \<Rightarrow> Some (Inl (NoError, app1, t1))
           | Some (GotKey key, t1) \<Rightarrow>
               if key = 49 \<or> key = 50 \<or> key = 51 \<or> key = 52 \<or> key = 53 then
                 (case handleChoice app1 (uint (key - 48)) t1 of
                    None \<Rightarrow> None
                  | Some (NoError, app3, t3) \<Rightarrow> Some (Inr (app3, t3))
                  | Some (Panic, app3, t3) \<Rightarrow> Some (Inl (Panic, app3, t3))
                  | Some (Error err, app3, t3) \<Rightarrow>
                      (case showMsg (log_Printf app3 (LogChoiceFailed err))
                              ([0x64CD, 0x4F5C, 0x5931, 0x8D25, 0x3A, 0x20] @ err) t3 of
                         None \<Rightarrow> None
                       | Some (Panic, app4, t4) \<Rightarrow> Some (Inl (Panic, app4, t4))
                       | Some (r, app4, t4) \<Rightarrow> Some (Inr (app4, t4))))
               else if key = 113 \<or> key = 81 \<or> key = 27
               then Some (Inl (NoError, app1, t1))
               else Some (Inr (app1, t1))))"

partial_function (option) configMenuLoop_timed ::
    "Env \<Rightarrow> (Application \<Rightarrow> int \<Rightarrow> nat \<Rightarrow> (result \<times> Application \<times> nat) option)
     \<Rightarrow> (Application \<Rightarrow> gostring \<Rightarrow> nat \<Rightarrow> (result \<times> Application \<times> nat) option)
     \<Rightarrow> Application \<Rightarrow> nat \<Rightarrow> (result \<times> Application \<times> nat) option" where
  "configMenuLoop_timed env handleChoice showMsg app t =
     (case configMenuTurn_timed env handleChoice showMsg app t of
        None \<Rightarrow> None
      | Some (Inl res) \<Rightarrow> Some res
      | Some (Inr (app', t')) \<Rightarrow> configMenuLoop_timed env handleChoice showMsg app' t')"

declare configMenuLoop_timed.simps [code]

definition enterConfigMenu_timed ::
    "Env \<Rightarrow> (Application \<Rightarrow> int \<Rightarrow> nat \<Rightarrow> (result \<times> Application \<times> nat) option)
     \<Rightarrow> (Application \<Rightarrow> gostring \<Rightarrow> nat \<Rightarrow> (result \<times> Application \<times> nat) option)
     \<Rightarrow> Application \<Rightarrow> nat \<Rightarrow> (result \<times> Application \<times> nat) option" where
  "enterConfigMenu_timed env handleChoice showMsg app t =
     (case configMenuLoop_timed env handleChoice showMsg
             (log_Printf (app\<lparr>running := False, ticker_active := False\<rparr>) LogEnteredConfigMenu) t of
        None \<Rightarrow> None
      | Some (r, app', t') \<Rightarrow>
          Some (r, log_Printf (app'\<lparr>running := True, ticker_active := True\<rparr>) LogLeftConfigMenu, t'))"

section \<open>Example values\<close>

text \<open>
  A device of 2 by 1 pixels at 32 bits per pixel, 8 bytes to the row, with its whole row
  mapped; and the same device when the driver reports a screen memory of 6 bytes only.
\<close>

definition example_fb :: FrameBuffer where
  "example_fb =
     \<lparr>device = Some 3, screenInfo = \<lparr>SmemLen = 8, LineLength = 8\<rparr>,
      varInfo = \<lparr>XRes = 2, YRes = 1, BitsPerPixel = 32\<rparr>,
      fbData = Some [0xFF, 0xFF, 0xFF, 0xFF, 0xFF, 0xFF, 0xFF, 0xFF],
      width = 2, height = 1, bpp = 32, closed = False\<rparr>"

definition example_fb_short :: FrameBuffer where
  "example_fb_short =
     \<lparr>device = Some 3, screenInfo = \<lparr>SmemLen = 6, LineLength = 8\<rparr>,
      varInfo = \<lparr>XRes = 2, YRes = 1, BitsPerPixel = 32\<rparr>,
      fbData = Some [0xFF, 0xFF, 0xFF, 0xFF, 0xFF, 0xFF],
      width = 2, height = 1, bpp = 32, closed = False\<rparr>"

text \<open>
  A system whose driver reports a resolution of 4294967295 by 4294967295 pixels at 32 bits
  per pixel, rows of 4294967295 bytes and a screen memory of 8 bytes; and the handle
  that \<open>NewFrameBuffer\<close> returns for it.
\<close>

definition example_wrap_os :: fb_os where
  "example_wrap_os =
     \<lparr>open_result = Inr 3,
      fscreeninfo_result = Inr \<lparr>SmemLen = 8, LineLength = 0xFFFFFFFF\<rparr>,
      vscreeninfo_result = Inr \<lparr>XRes = 0xFFFFFFFF, YRes = 0xFFFFFFFF, BitsPerPixel = 32\<rparr>,
      mmap_result = (\<lambda>n. Inr [0, 0, 0, 0, 0, 0, 0, 0])\<rparr>"

definition example_wrap_fb :: FrameBuffer where
  "example_wrap_fb =
     \<lparr>device = Some 3, screenInfo = \<lparr>SmemLen = 8, LineLength = 0xFFFFFFFF\<rparr>,
      varInfo = \<lparr>XRes = 0xFFFFFFFF, YRes = 0xFFFFFFFF, BitsPerPixel = 32\<rparr>,
      fbData = Some [0, 0, 0, 0, 0, 0, 0, 0],
      width = 4294967295, height = 4294967295, bpp = 32, closed = False\<rparr>"

text \<open>An image of 2 by 1 white pixels.\<close>

definition example_img :: Image where
  "example_img = \<lparr>MinX = 0, MinY = 0, MaxX = 2, MaxY = 1, At = (\<lambda>x y. white)\<rparr>"

text \<open>A system that opens the example device: every call succeeds, and the mapping has 8 bytes.\<close>

definition example_fb_os :: fb_os where
  "example_fb_os =
     \<lparr>open_result = Inr 3,
      fscreeninfo_result = Inr \<lparr>SmemLen = 8, LineLength = 8\<rparr>,
      vscreeninfo_result = Inr \<lparr>XRes = 2, YRes = 1, BitsPerPixel = 32\<rparr>,
      mmap_result = (\<lambda>n. Inr [0, 0, 0, 0, 0, 0, 0, 0])\<rparr>"

text \<open>
  A terminal in its usual cooked mode (signals, canonical input and echo on), and a
  system where every call of \<open>NewKeyboardInput\<close> succeeds but the write of the
  hide-cursor sequence, which fails with the error number 5.
\<close>

definition example_terminal :: Terminal where
  "example_terminal =
     \<lparr>attrs = \<lparr>Iflag = 0x4500, Oflag = 0x5, Cflag = 0xBF, Lflag = 0x8A3B,
               Cc = [3, 28, 127, 21, 4, 0, 1, 0, 17, 19, 26, 0, 18, 15, 23, 22,
                     0, 0, 0, 0, 0, 0, 0, 0, 0, 0, 0, 0, 0, 0, 0, 0]\<rparr>,
      cursor_hidden = False\<rparr>"

definition example_kb_os :: kb_os where
  "example_kb_os =
     \<lparr>open_stdin = Inr 0, open_tty = Inr 4, tcgets_errno = 0, tcsets_errno = 0,
      tty_write = Some 5\<rparr>"

text \<open>An open keyboard on descriptor 0.\<close>

definition example_ki :: KeyboardInput where
  "example_ki =
     \<lparr>device_ki = Some 0, ttyDevice = Some (TtyFile 4), oldTermios = attrs example_terminal,
      closed_ki = False, restored = False\<rparr>"

text \<open>
  An environment where the rasteriser always succeeds, no symbol can be encoded, the
  system-info snapshot never changes, and no key and no cancellation ever arrives; and
  an application on the example device, serving the main screen.
\<close>

definition example_sysinfo :: SystemInfo where
  "example_sysinfo =
     \<lparr>Uptime = asc ''1d'', CPUModel = asc ''cpu'', CPUCores = 4, MemoryUsage = asc ''50%'',
      DiskSize = asc ''1G'', DiskCount = 1, CurrentTime = asc ''12:00'',
      IPAddress = asc ''10.0.0.1'', QianKunCloudID = []\<rparr>"

definition example_env :: Env where
  "example_env =
     \<lparr>GetTextBounds = (\<lambda>s. (8, 16)),
      RenderText = (\<lambda>s. Inr example_img),
      RenderMultilineText = (\<lambda>ls. Inr example_img),
      qr_Encode = (\<lambda>s. Inl (asc ''no symbol'')),
      GetSystemInfo = (\<lambda>t. example_sysinfo),
      GetNetworkInterfaces = Inr [],
      RebootSystem = None,
      ShutdownSystem = None,
      netTestProgress = [],
      netTestDuration = 0,
      netTestResultsText = [],
      sched = (\<lambda>t. None),
      select_takes_key = (\<lambda>t. False)\<rparr>"

definition example_app :: Application where
  "example_app =
     \<lparr>menuRenderer = NewMenuRenderer example_fb, keyboard = example_ki, cancelled = False,
      running = True, disableCtrlC = False, ticker_active = True, logs = []\<rparr>"

text \<open>The application after one periodic refresh, and after a second one 5 seconds later.\<close>

definition example_app1 :: Application where
  "example_app1 =
     (case Run_step example_env example_app CaseTicker 0 of
        Some (ctl, app, t) \<Rightarrow> app | None \<Rightarrow> example_app)"

definition example_app2 :: Application where
  "example_app2 =
     (case Run_step example_env example_app1 CaseTicker 5000 of
        Some (ctl, app, t) \<Rightarrow> app | None \<Rightarrow> example_app1)"


section \<open>Facts about machine integers and byte stores\<close>

lemma i64_range: "- (2 ^ 63) \<le> i64 k \<and> i64 k < 2 ^ 63"
  unfolding i64_def
  using signed_take_bit_int_greater_eq_minus_exp [of 63 k] signed_take_bit_int_less_exp [of 63 k]
  by simp

lemma i64_id: "- (2 ^ 63) \<le> k \<Longrightarrow> k < 2 ^ 63 \<Longrightarrow> i64 k = k"
  unfolding i64_def by (rule signed_take_bit_int_eq_self) simp_all

lemma i64_nonneg_small:
  assumes "0 \<le> a" "a < 2 ^ 63" "0 \<le> k" "k \<le> 3" "0 \<le> i64 (a + k)"
  shows "i64 (a + k) = a + k"
proof (cases "a + k < 2 ^ 63")
  case True
  with assms show ?thesis by (intro i64_id) simp_all
next
  case False
  then have "2 ^ 63 \<le> a + k" by simp
  from signed_take_bit_int_less_eq [OF this] have "i64 (a + k) \<le> a + k - 2 ^ 64"
    by (simp add: i64_def)
  with assms show ?thesis by simp
qed

lemma quot_8_cases: "quot 16 8 = 2" "quot 24 8 = 3" "quot 32 8 = 4"
  by (simp_all add: quot_def)

lemma quot_nonneg: "0 \<le> a \<Longrightarrow> 0 < b \<Longrightarrow> quot a b = a div b"
  by (cases "a = 0") (simp_all add: quot_def)

lemma store_bytes_frame:
  "store_bytes buf ws = (oc, buf') \<Longrightarrow>
     length buf' = length buf \<and>
     (\<forall>i < length buf. (\<forall>(j, v) \<in> set ws. j \<noteq> int i) \<longrightarrow> buf' ! i = buf ! i)"
proof (induction ws arbitrary: buf)
  case Nil
  then show ?case by simp
next
  case (Cons w ws)
  obtain j v where w: "w = (j, v)" by (cases w)
  show ?case
  proof (cases "0 \<le> j \<and> j < int (length buf)")
    case True
    with Cons.prems w have "store_bytes (buf[nat j := v]) ws = (oc, buf')" by simp
    from Cons.IH [OF this] True w show ?thesis by (auto simp: nth_list_update)
  next
    case False
    with Cons.prems w show ?thesis by auto
  qed
qed

lemma pixel_stores_window:
  assumes "(j, v) \<in> set (pixel_stores d off r g b)" "0 \<le> off" "off < 2 ^ 63" "0 \<le> j"
  shows "off \<le> j \<and> j < off + quot d 8"
proof -
  from assms(1)
  have "\<exists>k. 0 \<le> k \<and> k \<le> 3 \<and> k < quot d 8 \<and> (j = off + k \<or> j = i64 (off + k))"
    by (auto simp: pixel_stores_def Let_def quot_8_cases split: if_splits
             intro: exI [of _ 0] exI [of _ 1] exI [of _ 2] exI [of _ 3])
  then obtain k where k: "0 \<le> k" "k \<le> 3" "k < quot d 8" "j = off + k \<or> j = i64 (off + k)"
    by blast
  have "j = off + k"
  proof (cases "j = off + k")
    case False
    with k have "j = i64 (off + k)" by simp
    with i64_nonneg_small [OF assms(2,3) k(1,2)] assms(4) show ?thesis by simp
  qed simp
  with k show ?thesis by simp
qed

lemma pixel_stores_other:
  "d \<noteq> 16 \<Longrightarrow> d \<noteq> 24 \<Longrightarrow> d \<noteq> 32 \<Longrightarrow> pixel_stores d off r g b = []"
  by (simp add: pixel_stores_def)

lemma pixel_offset_exact:
  assumes "0 \<le> x" "0 \<le> y" "0 \<le> q"
      and "quot (bpp dev) 8 = q"
      and "y * uint (LineLength (screenInfo dev)) + x * q < 2 ^ 63"
  shows "pixel_offset dev x y = y * uint (LineLength (screenInfo dev)) + x * q"
proof -
  let ?a = "y * uint (LineLength (screenInfo dev))" and ?b = "x * q"
  have a: "0 \<le> ?a" using assms by simp
  have b: "0 \<le> ?b" using assms by simp
  from a b assms(5) have "i64 ?a = ?a" "i64 ?b = ?b" by (auto intro!: i64_id)
  moreover from a b assms(5) have "i64 (?a + ?b) = ?a + ?b" by (auto intro!: i64_id)
  ultimately show ?thesis using assms(4) by (simp add: pixel_offset_def)
qed

lemma setPixelUnsafe_stores:
  assumes "fbData dev = Some buf"
      and "0 \<le> x" "x < width dev" "0 \<le> y" "y < height dev"
      and "quot (bpp dev) 8 = q" "0 \<le> q"
      and "off = y * uint (LineLength (screenInfo dev)) + x * q"
      and "off + q \<le> int (length buf)" "int (length buf) < 2 ^ 63"
  shows "0 \<le> off \<and> setPixelUnsafe dev x y c =
           (case store_bytes buf (pixel_stores (bpp dev) off (drop_bit 8 (red c))
                                   (drop_bit 8 (green c)) (drop_bit 8 (blue c))) of
              (oc, buf') \<Rightarrow> (oc, dev\<lparr>fbData := Some buf'\<rparr>))"
proof -
  have "0 \<le> y * uint (LineLength (screenInfo dev))" "0 \<le> x * q" using assms(2,4,7) by simp_all
  then have o_nonneg: "0 \<le> off" unfolding assms(8) by simp
  have "off < 2 ^ 63" using assms(7,9,10) by simp
  then have po: "pixel_offset dev x y = off"
    unfolding assms(8) using pixel_offset_exact [of x y q dev] assms(2,4,6,7) by simp
  have "i64 (off + q) = off + q" using assms(7,9,10) o_nonneg by (intro i64_id) simp_all
  then show ?thesis using assms(1-7,9) o_nonneg po
    by (simp add: setPixelUnsafe_def Let_def len_fbData_def)
qed

lemma SetPixel_16:
  assumes "\<not> closed dev" "fbData dev = Some buf"
      and "0 \<le> x" "x < width dev" "0 \<le> y" "y < height dev"
      and "bpp dev = 16"
      and "off = y * uint (LineLength (screenInfo dev)) + x * 2"
      and "off + 2 \<le> int (length buf)" "int (length buf) < 2 ^ 63"
  shows "SetPixel dev x y c =
     (Returned, dev\<lparr>fbData := Some (buf
        [nat off := ucast (rgb565 (drop_bit 8 (red c)) (drop_bit 8 (green c))
                             (drop_bit 8 (blue c)) AND 0xFF),
         nat off + 1 := ucast (drop_bit 8 (rgb565 (drop_bit 8 (red c)) (drop_bit 8 (green c))
                                            (drop_bit 8 (blue c))))])\<rparr>)"
proof -
  have q: "quot (bpp dev) 8 = 2" using assms(7) by (simp add: quot_def)
  from setPixelUnsafe_stores [OF assms(2-6) q _ assms(8,9,10), of c]
  have o: "0 \<le> off" and sp: "setPixelUnsafe dev x y c =
           (case store_bytes buf (pixel_stores (bpp dev) off (drop_bit 8 (red c))
                                   (drop_bit 8 (green c)) (drop_bit 8 (blue c))) of
              (oc, buf') \<Rightarrow> (oc, dev\<lparr>fbData := Some buf'\<rparr>))" by simp_all
  have i1: "i64 (off + 1) = off + 1" using assms(9,10) o by (intro i64_id) simp_all
  have n1: "nat (off + 1) = nat off + 1" using o by simp
  show ?thesis
    using sp assms(1,2,7,9) o
    by (simp add: SetPixel_def pixel_stores_def Let_def i1 n1)
qed

lemma SetPixel_24:
  assumes "\<not> closed dev" "fbData dev = Some buf"
      and "0 \<le> x" "x < width dev" "0 \<le> y" "y < height dev"
      and "bpp dev = 24"
      and "off = y * uint (LineLength (screenInfo dev)) + x * 3"
      and "off + 3 \<le> int (length buf)" "int (length buf) < 2 ^ 63"
  shows "SetPixel dev x y c =
     (Returned, dev\<lparr>fbData := Some (buf
        [nat off := ucast (drop_bit 8 (blue c)),
         nat off + 1 := ucast (drop_bit 8 (green c)),
         nat off + 2 := ucast (drop_bit 8 (red c))])\<rparr>)"
proof -
  have q: "quot (bpp dev) 8 = 3" using assms(7) by (simp add: quot_def)
  from setPixelUnsafe_stores [OF assms(2-6) q _ assms(8,9,10), of c]
  have o: "0 \<le> off" and sp: "setPixelUnsafe dev x y c =
           (case store_bytes buf (pixel_stores (bpp dev) off (drop_bit 8 (red c))
                                   (drop_bit 8 (green c)) (drop_bit 8 (blue c))) of
              (oc, buf') \<Rightarrow> (oc, dev\<lparr>fbData := Some buf'\<rparr>))" by simp_all
  have i1: "i64 (off + 1) = off + 1" "i64 (off + 2) = off + 2"
    using assms(9,10) o by (auto intro!: i64_id)
  have n1: "nat (off + 1) = nat off + 1" "nat (off + 2) = nat off + 2" using o by simp_all
  show ?thesis
    using sp assms(1,2,7,9) o
    by (simp add: SetPixel_def pixel_stores_def Let_def i1 n1)
qed

lemma SetPixel_32:
  assumes "\<not> closed dev" "fbData dev = Some buf"
      and "0 \<le> x" "x < width dev" "0 \<le> y" "y < height dev"
      and "bpp dev = 32"
      and "off = y * uint (LineLength (screenInfo dev)) + x * 4"
      and "off + 4 \<le> int (length buf)" "int (length buf) < 2 ^ 63"
  shows "SetPixel dev x y c =
     (Returned, dev\<lparr>fbData := Some (buf
        [nat off := ucast (drop_bit 8 (blue c)),
         nat off + 1 := ucast (drop_bit 8 (green c)),
         nat off + 2 := ucast (drop_bit 8 (red c)),
         nat off + 3 := 0])\<rparr>)"
proof -
  have q: "quot (bpp dev) 8 = 4" using assms(7) by (simp add: quot_def)
  from setPixelUnsafe_stores [OF assms(2-6) q _ assms(8,9,10), of c]
  have o: "0 \<le> off" and sp: "setPixelUnsafe dev x y c =
           (case store_bytes buf (pixel_stores (bpp dev) off (drop_bit 8 (red c))
                                   (drop_bit 8 (green c)) (drop_bit 8 (blue c))) of
              (oc, buf') \<Rightarrow> (oc, dev\<lparr>fbData := Some buf'\<rparr>))" by simp_all
  have i1: "i64 (off + 1) = off + 1" "i64 (off + 2) = off + 2" "i64 (off + 3) = off + 3"
    using assms(9,10) o by (auto intro!: i64_id)
  have n1: "nat (off + 1) = nat off + 1" "nat (off + 2) = nat off + 2"
    "nat (off + 3) = nat off + 3" using o by simp_all
  show ?thesis
    using sp assms(1,2,7,9) o
    by (simp add: SetPixel_def pixel_stores_def Let_def i1 n1)
qed

section \<open>The pixel engine\<close>

text \<open>
  C1, as amended. Take an open frame buffer, a coordinate inside the device, and the
  byte offset off = y * rowStride + x * bytesPerPixel. When the mapped slice holds the
  whole pixel (off + bytesPerPixel does not exceed its length), \<open>SetPixel\<close> returns
  normally and stores the pixel at off: at 16 bits per pixel the two bytes of
  (r AND 0xF8) << 8 OR (g AND 0xFC) << 3 OR (b AND 0xF8) >> 3, low byte first; at 24 the
  three bytes B, G, R; at 32 the four bytes B, G, R and then the constant byte 0,
  whatever the alpha of the colour. Here r, g, b are the high bytes of the 16-bit
  channels that \<open>RGBA()\<close> returns. When the pixel does not fit (off + bytesPerPixel
  exceeds the length), at a depth that is not negative and with off + bytesPerPixel
  below 2^63, \<open>SetPixel\<close> stores nothing and returns normally. In general it stores nothing whenever the offset as it computes
  it, in 64-bit arithmetic that wraps around, is negative or, increased by
  bytesPerPixel, exceeds the length.
\<close>

theorem SetPixel_writes_encoded_pixel:
  assumes "\<not> closed dev" and "fbData dev = Some buf" and "int (length buf) < 2 ^ 63"
      and "0 \<le> x" and "x < width dev" and "0 \<le> y" and "y < height dev"
      and "off = y * uint (LineLength (screenInfo dev)) + x * (bpp dev div 8)"
  shows "(off + bpp dev div 8 \<le> int (length buf) \<longrightarrow>
          (let r = drop_bit 8 (red c); g = drop_bit 8 (green c); b = drop_bit 8 (blue c);
               p = (ucast (push_bit 8 (r AND 0xF8) OR push_bit 3 (g AND 0xFC)
                           OR drop_bit 3 (b AND 0xF8)) :: uint16)
           in (bpp dev = 16 \<longrightarrow>
                 SetPixel dev x y c =
                   (Returned, dev\<lparr>fbData := Some (buf[nat off := ucast (p AND 0xFF),
                                                       nat off + 1 := ucast (drop_bit 8 p)])\<rparr>)) \<and>
              (bpp dev = 24 \<longrightarrow>
                 SetPixel dev x y c =
                   (Returned, dev\<lparr>fbData := Some (buf[nat off := ucast b, nat off + 1 := ucast g,
                                                       nat off + 2 := ucast r])\<rparr>)) \<and>
              (bpp dev = 32 \<longrightarrow>
                 SetPixel dev x y c =
                   (Returned, dev\<lparr>fbData := Some (buf[nat off := ucast b, nat off + 1 := ucast g,
                                                       nat off + 2 := ucast r,
                                                       nat off + 3 := 0])\<rparr>)))) \<and>
         (0 \<le> bpp dev \<and> int (length buf) < off + bpp dev div 8 \<and>
          off + bpp dev div 8 < 2 ^ 63 \<longrightarrow>
            SetPixel dev x y c = (Returned, dev)) \<and>
         (pixel_offset dev x y < 0 \<or>
          int (length buf) < i64 (pixel_offset dev x y + quot (bpp dev) 8) \<longrightarrow>
            SetPixel dev x y c = (Returned, dev))"
proof -
  have h16: "SetPixel dev x y c =
     (Returned, dev\<lparr>fbData := Some (buf
        [nat off := ucast (rgb565 (drop_bit 8 (red c)) (drop_bit 8 (green c))
                             (drop_bit 8 (blue c)) AND 0xFF),
         nat off + 1 := ucast (drop_bit 8 (rgb565 (drop_bit 8 (red c)) (drop_bit 8 (green c))
                                            (drop_bit 8 (blue c))))])\<rparr>)"
    if fits: "off + bpp dev div 8 \<le> int (length buf)" and d: "bpp dev = 16"
  proof -
    have o: "off = y * uint (LineLength (screenInfo dev)) + x * 2" using assms(8) d by simp
    have f: "off + 2 \<le> int (length buf)" using fits d by simp
    show ?thesis by (rule SetPixel_16 [OF assms(1,2,4-7) d o f assms(3)])
  qed
  have h24: "SetPixel dev x y c =
     (Returned, dev\<lparr>fbData := Some (buf
        [nat off := ucast (drop_bit 8 (blue c)),
         nat off + 1 := ucast (drop_bit 8 (green c)),
         nat off + 2 := ucast (drop_bit 8 (red c))])\<rparr>)"
    if fits: "off + bpp dev div 8 \<le> int (length buf)" and d: "bpp dev = 24"
  proof -
    have o: "off = y * uint (LineLength (screenInfo dev)) + x * 3" using assms(8) d by simp
    have f: "off + 3 \<le> int (length buf)" using fits d by simp
    show ?thesis by (rule SetPixel_24 [OF assms(1,2,4-7) d o f assms(3)])
  qed
  have h32: "SetPixel dev x y c =
     (Returned, dev\<lparr>fbData := Some (buf
        [nat off := ucast (drop_bit 8 (blue c)),
         nat off + 1 := ucast (drop_bit 8 (green c)),
         nat off + 2 := ucast (drop_bit 8 (red c)),
         nat off + 3 := 0])\<rparr>)"
    if fits: "off + bpp dev div 8 \<le> int (length buf)" and d: "bpp dev = 32"
  proof -
    have o: "off = y * uint (LineLength (screenInfo dev)) + x * 4" using assms(8) d by simp
    have f: "off + 4 \<le> int (length buf)" using fits d by simp
    show ?thesis by (rule SetPixel_32 [OF assms(1,2,4-7) d o f assms(3)])
  qed
  have guard: "SetPixel dev x y c = (Returned, dev)"
    if "pixel_offset dev x y < 0 \<or>
        int (length buf) < i64 (pixel_offset dev x y + quot (bpp dev) 8)"
    using that assms(1,2,4-7)
    by (auto simp: SetPixel_def setPixelUnsafe_def Let_def len_fbData_def)
  have nofit: "SetPixel dev x y c = (Returned, dev)"
    if "0 \<le> bpp dev \<and> int (length buf) < off + bpp dev div 8 \<and> off + bpp dev div 8 < 2 ^ 63"
  proof -
    have q: "quot (bpp dev) 8 = bpp dev div 8" using that by (simp add: quot_nonneg)
    have qn: "0 \<le> bpp dev div 8" using that by (simp add: pos_imp_zdiv_nonneg_iff)
    have "0 \<le> y * uint (LineLength (screenInfo dev))" "0 \<le> x * (bpp dev div 8)"
      using assms(4,6) qn by simp_all
    then have on: "0 \<le> off" unfolding assms(8) by simp
    have small: "off < 2 ^ 63" using that qn by simp
    have po: "pixel_offset dev x y = off"
      unfolding assms(8)
      using pixel_offset_exact [of x y "bpp dev div 8" dev] assms(4,6) qn q small [unfolded assms(8)]
      by simp
    have "i64 (off + bpp dev div 8) = off + bpp dev div 8"
      using that on qn by (intro i64_id) simp_all
    with that po q have "int (length buf) < i64 (pixel_offset dev x y + quot (bpp dev) 8)"
      by simp
    then show ?thesis by (intro guard) simp
  qed
  show ?thesis
    unfolding Let_def using h16 [unfolded rgb565_def] h24 h32 nofit guard by blast
qed

theorem SetPixel_writes_encoded_pixel_witness:
  "\<not> closed example_fb \<and> fbData example_fb = Some [0xFF, 0xFF, 0xFF, 0xFF, 0xFF, 0xFF, 0xFF, 0xFF] \<and>
   (1::int) < width example_fb \<and> (0::int) < height example_fb \<and> bpp example_fb = 32 \<and>
   SetPixel example_fb 1 0 white =
     (Returned, example_fb\<lparr>fbData := Some [0xFF, 0xFF, 0xFF, 0xFF, 0xFF, 0xFF, 0xFF, 0]\<rparr>) \<and>
   bpp (example_fb\<lparr>bpp := 24\<rparr>) = 24 \<and>
   SetPixel (example_fb\<lparr>bpp := 24\<rparr>) 1 0 \<lparr>red = 0xFFFF, green = 0x8080, blue = 0, alpha = 0xFFFF\<rparr> =
     (Returned, example_fb\<lparr>bpp := 24,
                  fbData := Some [0xFF, 0xFF, 0xFF, 0, 0x80, 0xFF, 0xFF, 0xFF]\<rparr>) \<and>
   bpp (example_fb\<lparr>bpp := 16\<rparr>) = 16 \<and>
   SetPixel (example_fb\<lparr>bpp := 16\<rparr>) 1 0 \<lparr>red = 0xFFFF, green = 0x8080, blue = 0, alpha = 0xFFFF\<rparr> =
     (Returned, example_fb\<lparr>bpp := 16,
                  fbData := Some [0xFF, 0xFF, 0, 0xFC, 0xFF, 0xFF, 0xFF, 0xFF]\<rparr>) \<and>
   \<not> closed example_fb_short \<and>
   fbData example_fb_short = Some [0xFF, 0xFF, 0xFF, 0xFF, 0xFF, 0xFF] \<and>
   (1::int) < width example_fb_short \<and> (0::int) < height example_fb_short \<and>
   (6::int) < 0 * uint (LineLength (screenInfo example_fb_short)) +
              1 * (bpp example_fb_short div 8) + bpp example_fb_short div 8 \<and>
   SetPixel example_fb_short 1 0 black = (Returned, example_fb_short) \<and>
   int (length [0xFF, 0xFF, 0xFF, 0xFF, 0xFF, 0xFF :: byte]) <
     i64 (pixel_offset example_fb_short 1 0 + quot (bpp example_fb_short) 8)"
proof -
  let ?buf = "[0xFF, 0xFF, 0xFF, 0xFF, 0xFF, 0xFF, 0xFF, 0xFF] :: byte list"
  let ?short = "[0xFF, 0xFF, 0xFF, 0xFF, 0xFF, 0xFF] :: byte list"
  let ?c = "\<lparr>red = 0xFFFF, green = 0x8080, blue = 0, alpha = 0xFFFF\<rparr> :: Color"
  have h1: "\<not> closed (example_fb\<lparr>bpp := d\<rparr>)" for d by (simp add: example_fb_def)
  have h2: "fbData (example_fb\<lparr>bpp := d\<rparr>) = Some ?buf" for d by (simp add: example_fb_def)
  have h3: "int (length ?buf) < 2 ^ 63" by simp
  have h4: "(0::int) \<le> 1" "(1::int) < width (example_fb\<lparr>bpp := d\<rparr>)" "(0::int) \<le> 0"
    "(0::int) < height (example_fb\<lparr>bpp := d\<rparr>)" for d
    by (simp_all add: example_fb_def)
  have same: "example_fb\<lparr>bpp := 32\<rparr> = example_fb" by (simp add: example_fb_def)
  have d: "bpp example_fb = 32" by (simp add: example_fb_def)
  have o32: "(4::int) = 0 * uint (LineLength (screenInfo (example_fb\<lparr>bpp := 32\<rparr>))) +
                1 * (bpp (example_fb\<lparr>bpp := 32\<rparr>) div 8)"
    and o24: "(3::int) = 0 * uint (LineLength (screenInfo (example_fb\<lparr>bpp := 24\<rparr>))) +
                1 * (bpp (example_fb\<lparr>bpp := 24\<rparr>) div 8)"
    and o16: "(2::int) = 0 * uint (LineLength (screenInfo (example_fb\<lparr>bpp := 16\<rparr>))) +
                1 * (bpp (example_fb\<lparr>bpp := 16\<rparr>) div 8)"
    by (simp_all add: example_fb_def)
  have f32: "(4::int) + bpp (example_fb\<lparr>bpp := 32\<rparr>) div 8 \<le> int (length ?buf)"
    and f24: "(3::int) + bpp (example_fb\<lparr>bpp := 24\<rparr>) div 8 \<le> int (length ?buf)"
    and f16: "(2::int) + bpp (example_fb\<lparr>bpp := 16\<rparr>) div 8 \<le> int (length ?buf)"
    by simp_all
  from SetPixel_writes_encoded_pixel [OF h1 h2 h3 h4 o32, of white, unfolded Let_def] f32
  have "SetPixel (example_fb\<lparr>bpp := 32\<rparr>) 1 0 white =
          (Returned, example_fb\<lparr>bpp := 32, fbData := Some (?buf[nat 4 := ucast (drop_bit 8 (blue white)),
             nat 4 + 1 := ucast (drop_bit 8 (green white)),
             nat 4 + 2 := ucast (drop_bit 8 (red white)), nat 4 + 3 := 0])\<rparr>)"
    by simp
  also have "?buf[nat 4 := ucast (drop_bit 8 (blue white)),
             nat 4 + 1 := ucast (drop_bit 8 (green white)),
             nat 4 + 2 := ucast (drop_bit 8 (red white)), nat 4 + 3 := 0]
           = [0xFF, 0xFF, 0xFF, 0xFF, 0xFF, 0xFF, 0xFF, 0]"
    by (simp add: white_def)
  finally have r32: "SetPixel example_fb 1 0 white =
     (Returned, example_fb\<lparr>fbData := Some [0xFF, 0xFF, 0xFF, 0xFF, 0xFF, 0xFF, 0xFF, 0]\<rparr>)"
    unfolding same .
  from SetPixel_writes_encoded_pixel [OF h1 h2 h3 h4 o24, of ?c, unfolded Let_def] f24
  have "SetPixel (example_fb\<lparr>bpp := 24\<rparr>) 1 0 ?c =
          (Returned, example_fb\<lparr>bpp := 24, fbData := Some (?buf[nat 3 := ucast (drop_bit 8 (blue ?c)),
             nat 3 + 1 := ucast (drop_bit 8 (green ?c)),
             nat 3 + 2 := ucast (drop_bit 8 (red ?c))])\<rparr>)"
    by simp
  also have "?buf[nat 3 := ucast (drop_bit 8 (blue ?c)),
             nat 3 + 1 := ucast (drop_bit 8 (green ?c)),
             nat 3 + 2 := ucast (drop_bit 8 (red ?c))]
           = [0xFF, 0xFF, 0xFF, 0, 0x80, 0xFF, 0xFF, 0xFF]"
    by simp
  finally have r24: "SetPixel (example_fb\<lparr>bpp := 24\<rparr>) 1 0 ?c =
     (Returned, example_fb\<lparr>bpp := 24,
                  fbData := Some [0xFF, 0xFF, 0xFF, 0, 0x80, 0xFF, 0xFF, 0xFF]\<rparr>)" .
  let ?p = "ucast (push_bit 8 (drop_bit 8 (red ?c) AND 0xF8) OR
                   push_bit 3 (drop_bit 8 (green ?c) AND 0xFC) OR
                   drop_bit 3 (drop_bit 8 (blue ?c) AND 0xF8)) :: uint16"
  have p: "?p = 0xFC00" by simp
  from SetPixel_writes_encoded_pixel [OF h1 h2 h3 h4 o16, of ?c, unfolded Let_def] f16
  have "SetPixel (example_fb\<lparr>bpp := 16\<rparr>) 1 0 ?c =
          (Returned, example_fb\<lparr>bpp := 16, fbData := Some (?buf[nat 2 := ucast (?p AND 0xFF),
             nat 2 + 1 := ucast (drop_bit 8 ?p)])\<rparr>)"
    by simp
  also have "?buf[nat 2 := ucast (?p AND 0xFF), nat 2 + 1 := ucast (drop_bit 8 ?p)]
           = [0xFF, 0xFF, 0, 0xFC, 0xFF, 0xFF, 0xFF, 0xFF]"
    unfolding p by simp
  finally have r16: "SetPixel (example_fb\<lparr>bpp := 16\<rparr>) 1 0 ?c =
     (Returned, example_fb\<lparr>bpp := 16,
                  fbData := Some [0xFF, 0xFF, 0, 0xFC, 0xFF, 0xFF, 0xFF, 0xFF]\<rparr>)" .
  have s1: "\<not> closed example_fb_short" and s2: "fbData example_fb_short = Some ?short"
    and s3: "int (length ?short) < 2 ^ 63"
    and s4: "(0::int) \<le> 1" "(1::int) < width example_fb_short" "(0::int) \<le> 0"
            "(0::int) < height example_fb_short"
    and s5: "(4::int) = 0 * uint (LineLength (screenInfo example_fb_short)) +
                1 * (bpp example_fb_short div 8)"
    and s6: "0 \<le> bpp example_fb_short \<and> int (length ?short) < 4 + bpp example_fb_short div 8 \<and>
             (4::int) + bpp example_fb_short div 8 < 2 ^ 63"
    and s7: "(6::int) < 0 * uint (LineLength (screenInfo example_fb_short)) +
              1 * (bpp example_fb_short div 8) + bpp example_fb_short div 8"
    by (simp_all add: example_fb_short_def)
  note ts = SetPixel_writes_encoded_pixel [OF s1 s2 s3 s4 s5, of black]
  from ts s6 have r_short: "SetPixel example_fb_short 1 0 black = (Returned, example_fb_short)"
    by blast
  have q0: "quot 32 8 = 4" by (simp add: quot_def)
  have g: "int (length ?short) <
             i64 (pixel_offset example_fb_short 1 0 + quot (bpp example_fb_short) 8)"
    by (simp add: pixel_offset_def example_fb_short_def q0 i64_id)
  from ts g have "SetPixel example_fb_short 1 0 black = (Returned, example_fb_short)"
    by blast
  from h1 [of 32] h2 [of 32] h4(2) [of 32] h4(4) [of 32] d r32 r24 r16 s1 s2 s4 s7 r_short g
  show ?thesis unfolding same by simp
qed

text \<open>
  C1 as stated fails: on the device whose driver reports a screen memory of 6 bytes, the
  pixel (1, 0) is inside the device, yet \<open>SetPixel\<close> stores nothing, because the four
  bytes at offset 4 do not fit; and at 32 bits per pixel the fourth byte of an opaque
  white pixel is stored as 0x00, not as the opaque value 0xFF.
\<close>

theorem SetPixel_writes_encoded_pixel_counterexample:
  "\<not> closed example_fb_short \<and> fbData example_fb_short \<noteq> None \<and>
   (0::int) \<le> 1 \<and> 1 < width example_fb_short \<and> (0::int) \<le> 0 \<and> 0 < height example_fb_short \<and>
   SetPixel example_fb_short 1 0 white = (Returned, example_fb_short) \<and>
   alpha white = 0xFFFF \<and>
   SetPixel example_fb 0 0 white =
     (Returned, example_fb\<lparr>fbData := Some [0xFF, 0xFF, 0xFF, 0x00, 0xFF, 0xFF, 0xFF, 0xFF]\<rparr>)"
proof -
  have q: "quot 32 8 = 4" by (simp add: quot_def)
  have off: "pixel_offset example_fb_short 1 0 = 4"
    by (simp add: pixel_offset_def example_fb_short_def q i64_id)
  have len: "len_fbData example_fb_short = 6"
    by (simp add: len_fbData_def example_fb_short_def)
  have b: "quot (bpp example_fb_short) 8 = 4" by (simp add: example_fb_short_def q)
  have short: "SetPixel example_fb_short 1 0 white = (Returned, example_fb_short)"
    unfolding SetPixel_def setPixelUnsafe_def Let_def off len b
    by (simp add: i64_id)
  let ?buf = "[0xFF, 0xFF, 0xFF, 0xFF, 0xFF, 0xFF, 0xFF, 0xFF] :: byte list"
  have h1: "\<not> closed example_fb" and h2: "fbData example_fb = Some ?buf"
    and h4: "(0::int) \<le> 0" "(0::int) < width example_fb" "(0::int) \<le> 0"
            "(0::int) < height example_fb"
    and d: "bpp example_fb = 32"
    and h5: "(0::int) = 0 * uint (LineLength (screenInfo example_fb)) + 0 * 4"
    and h6: "(0::int) + 4 \<le> int (length ?buf)" and h3: "int (length ?buf) < 2 ^ 63"
    by (simp_all add: example_fb_def)
  have "SetPixel example_fb 0 0 white =
          (Returned, example_fb\<lparr>fbData := Some (?buf[nat 0 := ucast (drop_bit 8 (blue white)),
             nat 0 + 1 := ucast (drop_bit 8 (green white)),
             nat 0 + 2 := ucast (drop_bit 8 (red white)), nat 0 + 3 := 0])\<rparr>)"
    by (rule SetPixel_32 [OF h1 h2 h4 d h5 h6 h3])
  also have "?buf[nat 0 := ucast (drop_bit 8 (blue white)),
             nat 0 + 1 := ucast (drop_bit 8 (green white)),
             nat 0 + 2 := ucast (drop_bit 8 (red white)), nat 0 + 3 := 0]
           = [0xFF, 0xFF, 0xFF, 0x00, 0xFF, 0xFF, 0xFF, 0xFF]"
    by (simp add: white_def)
  finally have alpha0: "SetPixel example_fb 0 0 white =
     (Returned, example_fb\<lparr>fbData := Some [0xFF, 0xFF, 0xFF, 0x00, 0xFF, 0xFF, 0xFF, 0xFF]\<rparr>)" .
  have misc: "\<not> closed example_fb_short" "fbData example_fb_short \<noteq> None"
    "1 < width example_fb_short" "0 < height example_fb_short" "alpha white = 0xFFFF"
    by (simp_all add: example_fb_short_def white_def)
  from short alpha0 misc show ?thesis by simp
qed

text \<open>
  The frame of \<open>SetPixel\<close>. For an open frame buffer and any coordinate, \<open>SetPixel\<close>
  changes no field of the handle but the mapped bytes, keeps their number, and changes
  no byte outside the bytesPerPixel bytes that start at the offset it computes; when the
  depth is none of 16, 24 and 32 it changes no byte at all. The offset it computes is
  y * rowStride + x * bytesPerPixel when that value is below 2^63; beyond, it is that
  value wrapped around.
\<close>

lemma SetPixel_frame:
  assumes "\<not> closed dev" and "fbData dev = Some buf"
  shows "\<exists>oc buf'. SetPixel dev x y c = (oc, dev\<lparr>fbData := Some buf'\<rparr>) \<and>
           length buf' = length buf \<and>
           (\<forall>i < length buf.
              \<not> (pixel_offset dev x y \<le> int i \<and> int i < pixel_offset dev x y + quot (bpp dev) 8)
              \<longrightarrow> buf' ! i = buf ! i) \<and>
           (bpp dev \<noteq> 16 \<and> bpp dev \<noteq> 24 \<and> bpp dev \<noteq> 32 \<longrightarrow> buf' = buf) \<and>
           (0 \<le> x \<and> 0 \<le> y \<and> 0 \<le> bpp dev \<and>
            y * uint (LineLength (screenInfo dev)) + x * (bpp dev div 8) < 2 ^ 63 \<longrightarrow>
              pixel_offset dev x y = y * uint (LineLength (screenInfo dev)) + x * (bpp dev div 8) \<and>
              quot (bpp dev) 8 = bpp dev div 8)"
proof -
  define off where "off = pixel_offset dev x y"
  define ws where "ws = pixel_stores (bpp dev) off (drop_bit 8 (red c)) (drop_bit 8 (green c))
                          (drop_bit 8 (blue c))"
  have same: "dev\<lparr>fbData := Some buf\<rparr> = dev" using assms(2) by simp
  have exact: "pixel_offset dev x y = y * uint (LineLength (screenInfo dev)) + x * (bpp dev div 8) \<and>
               quot (bpp dev) 8 = bpp dev div 8"
    if "0 \<le> x \<and> 0 \<le> y \<and> 0 \<le> bpp dev \<and>
        y * uint (LineLength (screenInfo dev)) + x * (bpp dev div 8) < 2 ^ 63"
  proof -
    have q: "quot (bpp dev) 8 = bpp dev div 8" using that by (simp add: quot_nonneg)
    moreover have "0 \<le> bpp dev div 8" using that by (simp add: pos_imp_zdiv_nonneg_iff)
    ultimately show ?thesis using pixel_offset_exact [of x y "bpp dev div 8" dev] that by simp
  qed
  show ?thesis
  proof (cases "x < 0 \<or> x \<ge> width dev \<or> y < 0 \<or> y \<ge> height dev \<or> off < 0
                 \<or> i64 (off + quot (bpp dev) 8) > len_fbData dev")
    case True
    then have "SetPixel dev x y c = (Returned, dev\<lparr>fbData := Some buf\<rparr>)"
      using assms by (auto simp: SetPixel_def setPixelUnsafe_def Let_def off_def same)
    with exact show ?thesis by blast
  next
    case False
    obtain oc buf' where sb: "store_bytes buf ws = (oc, buf')" by (cases "store_bytes buf ws")
    from False have sp: "SetPixel dev x y c = (oc, dev\<lparr>fbData := Some buf'\<rparr>)"
      using assms sb
      by (simp add: SetPixel_def setPixelUnsafe_def Let_def off_def [symmetric] ws_def [symmetric])
    have off_r: "0 \<le> off" "off < 2 ^ 63"
      using False
        i64_range [of "i64 (y * uint (LineLength (screenInfo dev))) + i64 (x * quot (bpp dev) 8)"]
      by (simp_all add: off_def pixel_offset_def)
    from store_bytes_frame [OF sb] have len: "length buf' = length buf"
      and fr: "\<And>i. i < length buf \<Longrightarrow> (\<forall>(j, v) \<in> set ws. j \<noteq> int i) \<Longrightarrow> buf' ! i = buf ! i"
      by auto
    have win: "buf' ! i = buf ! i"
      if "i < length buf" "\<not> (off \<le> int i \<and> int i < off + quot (bpp dev) 8)" for i
    proof (rule fr [OF that(1)], clarify)
      fix v assume "(int i, v) \<in> set ws"
      from pixel_stores_window [OF this [unfolded ws_def] off_r] that(2) show False by simp
    qed
    have oth: "buf' = buf" if "bpp dev \<noteq> 16 \<and> bpp dev \<noteq> 24 \<and> bpp dev \<noteq> 32"
      using that sb by (simp add: ws_def pixel_stores_other)
    from sp len win oth exact show ?thesis unfolding off_def by blast
  qed
qed

text \<open>
  C10 fails on the code. \<open>NewFrameBuffer\<close> returns a handle for a driver that reports
  4294967295 by 4294967295 pixels at 32 bits per pixel, rows of 4294967295 bytes and a
  screen memory of 8 bytes. The pixel (3221225472, 4294967294) is inside that device and
  its offset y * rowStride + x * bytesPerPixel is 2^64 + 2, far beyond the 8 mapped
  bytes, so that no mapped byte belongs to the pixel. \<open>SetPixel\<close> computes the offset in
  64-bit arithmetic, where it wraps around to 2, passes its guard, and stores the white
  pixel in the bytes 2 to 5 of the buffer.
\<close>

theorem SetPixel_wraps_offset:
  "NewFrameBuffer example_wrap_os =
     (Inr example_wrap_fb,
      [SysOpen, SysIoctl FBIOGET_FSCREENINFO, SysIoctl FBIOGET_VSCREENINFO, SysMmap 8]) \<and>
   \<not> closed example_wrap_fb \<and> bpp example_wrap_fb = 32 \<and>
   fbData example_wrap_fb = Some [0, 0, 0, 0, 0, 0, 0, 0] \<and>
   (0::int) \<le> 3221225472 \<and> 3221225472 < width example_wrap_fb \<and>
   (0::int) \<le> 4294967294 \<and> 4294967294 < height example_wrap_fb \<and>
   4294967294 * uint (LineLength (screenInfo example_wrap_fb)) +
     3221225472 * (bpp example_wrap_fb div 8) = 2 ^ 64 + 2 \<and>
   pixel_offset example_wrap_fb 3221225472 4294967294 = 2 \<and>
   SetPixel example_wrap_fb 3221225472 4294967294 white =
     (Returned, example_wrap_fb\<lparr>fbData := Some [0, 0, 0xFF, 0xFF, 0xFF, 0, 0, 0]\<rparr>)"
proof -
  have new: "NewFrameBuffer example_wrap_os =
     (Inr example_wrap_fb,
      [SysOpen, SysIoctl FBIOGET_FSCREENINFO, SysIoctl FBIOGET_VSCREENINFO, SysMmap 8])"
    by (simp add: NewFrameBuffer_def example_wrap_os_def getScreenInfo_def mapMemory_def
          zero_FrameBuffer_def example_wrap_fb_def Let_def)
  have q0: "quot 32 8 = 4" by (simp add: quot_def)
  have q: "quot (bpp example_wrap_fb) 8 = 4" by (simp add: example_wrap_fb_def q0)
  have i1: "i64 18446744060824649730 = - 12884901886"
    by (simp add: i64_def signed_take_bit_eq_take_bit_shift take_bit_eq_mod)
  have i2: "i64 (3221225472 * 4) = 12884901888" by (simp add: i64_id)
  have off: "pixel_offset example_wrap_fb 3221225472 4294967294 = 2"
    unfolding pixel_offset_def q by (simp add: example_wrap_fb_def i1 i2 i64_id)
  have len: "len_fbData example_wrap_fb = 8"
    by (simp add: len_fbData_def example_wrap_fb_def)
  have misc: "\<not> closed example_wrap_fb" "bpp example_wrap_fb = 32"
    "fbData example_wrap_fb = Some [0, 0, 0, 0, 0, 0, 0, 0]"
    "3221225472 < width example_wrap_fb" "4294967294 < height example_wrap_fb"
    "4294967294 * uint (LineLength (screenInfo example_wrap_fb)) +
       3221225472 * (bpp example_wrap_fb div 8) = 2 ^ 64 + 2"
    by (simp_all add: example_wrap_fb_def)
  have st: "pixel_stores 32 2 (drop_bit 8 (red white)) (drop_bit 8 (green white))
              (drop_bit 8 (blue white)) = [(2, 0xFF), (3, 0xFF), (4, 0xFF), (5, 0)]"
    by (simp add: pixel_stores_def white_def i64_id)
  have sb: "store_bytes [0, 0, 0, 0, 0, 0, 0, 0] [(2, 0xFF), (3, 0xFF), (4, 0xFF), (5, 0)] =
              (Returned, [0, 0, 0xFF, 0xFF, 0xFF, 0, 0, 0])"
    by simp
  have sp: "SetPixel example_wrap_fb 3221225472 4294967294 white =
     (Returned, example_wrap_fb\<lparr>fbData := Some [0, 0, 0xFF, 0xFF, 0xFF, 0, 0, 0]\<rparr>)"
    unfolding SetPixel_def setPixelUnsafe_def Let_def off q len
    using misc(1-5) by (simp add: st sb i64_id)
  from new misc off sp show ?thesis by simp
qed
section \<open>Guards of the pixel engine\<close>

lemma draw_pixels_Nil_coords:
  "endX \<le> startX \<or> endY \<le> startY \<Longrightarrow> draw_coords startX startY endX endY = []"
  by (auto simp: draw_coords_def)

lemma draw_coords_in_range:
  "(px, py) \<in> set (draw_coords startX startY endX endY) \<Longrightarrow>
     startX \<le> px \<and> px < endX \<and> startY \<le> py \<and> py < endY"
  by (auto simp: draw_coords_def)

lemma DrawImage_beyond:
  "width dev \<le> x \<or> height dev \<le> y \<Longrightarrow> DrawImage dev img x y = (Returned, dev)"
proof -
  assume "width dev \<le> x \<or> height dev \<le> y"
  then have "min (width dev) (i64 (x + Dx img)) \<le> max 0 x \<or>
             min (height dev) (i64 (y + Dy img)) \<le> max 0 y"
    by auto
  then have "draw_coords (max 0 x) (max 0 y) (min (width dev) (i64 (x + Dx img)))
               (min (height dev) (i64 (y + Dy img))) = []"
    by (rule draw_pixels_Nil_coords)
  then show ?thesis by (simp add: DrawImage_def Let_def)
qed

lemma Close_closed: "closed (fst (snd (Close m c dev)))"
  by (auto simp: Close_def Let_def split: option.splits prod.splits)

text \<open>
  C2, as amended. \<open>SetPixel\<close>, and the per-pixel store \<open>setPixelUnsafe\<close> that
  \<open>DrawImage\<close> uses, leave the frame buffer as it is and return normally for every
  coordinate outside the device. \<open>DrawImage\<close> clips: it visits only coordinates inside
  the device, and it leaves the frame buffer as it is and returns normally when its
  origin is at or beyond the right or bottom edge. Once the closed flag is set, and so
  after every \<open>Close\<close>, each of \<open>SetPixel\<close>, \<open>DrawImage\<close> and \<open>Clear\<close> leaves
  the frame buffer as it is and returns normally.
\<close>

theorem out_of_bounds_and_closed_are_noops:
  "(x < 0 \<or> width dev \<le> x \<or> y < 0 \<or> height dev \<le> y \<longrightarrow>
      SetPixel dev x y c = (Returned, dev) \<and> setPixelUnsafe dev x y c = (Returned, dev)) \<and>
   (width dev \<le> x \<or> height dev \<le> y \<longrightarrow> DrawImage dev img x y = (Returned, dev)) \<and>
   (\<forall>(px, py) \<in> set (draw_coords (max 0 x) (max 0 y)
                         (min (width dev) (i64 (x + Dx img))) (min (height dev) (i64 (y + Dy img)))).
      0 \<le> px \<and> px < width dev \<and> 0 \<le> py \<and> py < height dev) \<and>
   (closed dev \<longrightarrow>
      SetPixel dev x y c = (Returned, dev) \<and> DrawImage dev img x y = (Returned, dev) \<and>
      Clear dev = (Returned, dev)) \<and>
   (let dev' = fst (snd (Close munmap_res close_res dev))
    in SetPixel dev' x y c = (Returned, dev') \<and> DrawImage dev' img x y = (Returned, dev') \<and>
       Clear dev' = (Returned, dev'))"
proof -
  have oob: "SetPixel dev x y c = (Returned, dev) \<and> setPixelUnsafe dev x y c = (Returned, dev)"
    if "x < 0 \<or> width dev \<le> x \<or> y < 0 \<or> height dev \<le> y"
    using that by (auto simp: SetPixel_def setPixelUnsafe_def)
  have beyond: "DrawImage dev img x y = (Returned, dev)" if "width dev \<le> x \<or> height dev \<le> y"
    using that by (rule DrawImage_beyond)
  have clip: "\<forall>(px, py) \<in> set (draw_coords (max 0 x) (max 0 y)
                         (min (width dev) (i64 (x + Dx img))) (min (height dev) (i64 (y + Dy img)))).
      0 \<le> px \<and> px < width dev \<and> 0 \<le> py \<and> py < height dev"
    by (auto dest!: draw_coords_in_range)
  have cl: "SetPixel d x y c = (Returned, d) \<and> DrawImage d img x y = (Returned, d) \<and>
            Clear d = (Returned, d)" if "closed d" for d
    using that by (simp add: SetPixel_def DrawImage_def Clear_def)
  from oob beyond clip cl [of dev] cl [OF Close_closed, of munmap_res close_res dev]
  show ?thesis unfolding Let_def by blast
qed

theorem out_of_bounds_and_closed_are_noops_witness:
  "width example_fb \<le> 2 \<and>
   SetPixel example_fb 2 0 white = (Returned, example_fb) \<and>
   DrawImage example_fb example_img 2 0 = (Returned, example_fb) \<and>
   (0, 0) \<in> set (draw_coords (max 0 0) (max 0 0)
                    (min (width example_fb) (i64 (0 + Dx example_img)))
                    (min (height example_fb) (i64 (0 + Dy example_img)))) \<and>
   closed (example_fb\<lparr>closed := True\<rparr>) \<and>
   SetPixel (example_fb\<lparr>closed := True\<rparr>) 0 0 white = (Returned, example_fb\<lparr>closed := True\<rparr>) \<and>
   DrawImage (example_fb\<lparr>closed := True\<rparr>) example_img 0 0 =
     (Returned, example_fb\<lparr>closed := True\<rparr>) \<and>
   Clear (example_fb\<lparr>closed := True\<rparr>) = (Returned, example_fb\<lparr>closed := True\<rparr>) \<and>
   SetPixel (fst (snd (Close None None example_fb))) 0 0 white =
     (Returned, fst (snd (Close None None example_fb))) \<and>
   Clear (fst (snd (Close None None example_fb))) = (Returned, fst (snd (Close None None example_fb)))"
proof -
  have dx: "Dx example_img = 2" "Dy example_img = 1"
    by (simp_all add: Dx_def Dy_def example_img_def i64_id)
  have coords: "(0, 0) \<in> set (draw_coords (max 0 0) (max 0 0)
                    (min (width example_fb) (i64 (0 + Dx example_img)))
                    (min (height example_fb) (i64 (0 + Dy example_img))))"
    by (simp add: dx i64_id example_fb_def draw_coords_def)
  have w: "width example_fb \<le> 2" "closed (example_fb\<lparr>closed := True\<rparr>)"
    by (simp_all add: example_fb_def)
  note t1 = out_of_bounds_and_closed_are_noops [of 2 example_fb 0 white example_img None None]
  note t2 = out_of_bounds_and_closed_are_noops
              [of 0 "example_fb\<lparr>closed := True\<rparr>" 0 white example_img None None]
  note t3 = out_of_bounds_and_closed_are_noops [of 0 example_fb 0 white example_img None None]
  from t1 w have a: "SetPixel example_fb 2 0 white = (Returned, example_fb)"
    "DrawImage example_fb example_img 2 0 = (Returned, example_fb)"
    by simp_all
  from t2 w have b: "SetPixel (example_fb\<lparr>closed := True\<rparr>) 0 0 white =
      (Returned, example_fb\<lparr>closed := True\<rparr>)"
    "DrawImage (example_fb\<lparr>closed := True\<rparr>) example_img 0 0 =
      (Returned, example_fb\<lparr>closed := True\<rparr>)"
    "Clear (example_fb\<lparr>closed := True\<rparr>) = (Returned, example_fb\<lparr>closed := True\<rparr>)"
    by simp_all
  from t3 have c: "SetPixel (fst (snd (Close None None example_fb))) 0 0 white =
      (Returned, fst (snd (Close None None example_fb)))"
    "Clear (fst (snd (Close None None example_fb))) =
      (Returned, fst (snd (Close None None example_fb)))"
    by (simp_all add: Let_def)
  from t3 coords have "(0::int) \<le> 0 \<and> (0::int) < width example_fb" by blast
  with w coords a b c show ?thesis by simp
qed

text \<open>
  C2 as stated fails for \<open>DrawImage\<close>: the origin (-1, 0) is outside the device, and the
  image of 2 by 1 white pixels drawn there changes the pixel (0, 0) of the buffer.
\<close>

theorem out_of_bounds_and_closed_are_noops_counterexample:
  "(-1::int) < 0 \<and>
   DrawImage example_fb example_img (-1) 0 =
     (Returned, example_fb\<lparr>fbData := Some [0xFF, 0xFF, 0xFF, 0x00, 0xFF, 0xFF, 0xFF, 0xFF]\<rparr>) \<and>
   DrawImage example_fb example_img (-1) 0 \<noteq> (Returned, example_fb)"
proof -
  have dx: "Dx example_img = 2" "Dy example_img = 1"
    by (simp_all add: Dx_def Dy_def example_img_def i64_id)
  have coords: "draw_coords (max 0 (-1)) (max 0 0) (min (width example_fb) (i64 (-1 + Dx example_img)))
                  (min (height example_fb) (i64 (0 + Dy example_img))) = [(0, 0)]"
    by (simp add: dx i64_id example_fb_def draw_coords_def)
  let ?buf = "[0xFF, 0xFF, 0xFF, 0xFF, 0xFF, 0xFF, 0xFF, 0xFF] :: byte list"
  have h1: "\<not> closed example_fb" and h2: "fbData example_fb = Some ?buf"
    and h4: "(0::int) \<le> 0" "(0::int) < width example_fb" "(0::int) \<le> 0"
            "(0::int) < height example_fb"
    and d: "bpp example_fb = 32"
    and h5: "(0::int) = 0 * uint (LineLength (screenInfo example_fb)) + 0 * 4"
    and h6: "(0::int) + 4 \<le> int (length ?buf)" and h3: "int (length ?buf) < 2 ^ 63"
    by (simp_all add: example_fb_def)
  have "SetPixel example_fb 0 0 white =
          (Returned, example_fb\<lparr>fbData := Some (?buf[nat 0 := ucast (drop_bit 8 (blue white)),
             nat 0 + 1 := ucast (drop_bit 8 (green white)),
             nat 0 + 2 := ucast (drop_bit 8 (red white)), nat 0 + 3 := 0])\<rparr>)"
    by (rule SetPixel_32 [OF h1 h2 h4 d h5 h6 h3])
  also have "?buf[nat 0 := ucast (drop_bit 8 (blue white)),
             nat 0 + 1 := ucast (drop_bit 8 (green white)),
             nat 0 + 2 := ucast (drop_bit 8 (red white)), nat 0 + 3 := 0]
           = [0xFF, 0xFF, 0xFF, 0x00, 0xFF, 0xFF, 0xFF, 0xFF]"
    by (simp add: white_def)
  finally have sp: "setPixelUnsafe example_fb 0 0 white =
     (Returned, example_fb\<lparr>fbData := Some [0xFF, 0xFF, 0xFF, 0x00, 0xFF, 0xFF, 0xFF, 0xFF]\<rparr>)"
    using h1 h2 by (simp add: SetPixel_def)
  have at: "At example_img sx sy = white" for sx sy by (simp add: example_img_def)
  have di: "DrawImage example_fb example_img (-1) 0 =
     (Returned, example_fb\<lparr>fbData := Some [0xFF, 0xFF, 0xFF, 0x00, 0xFF, 0xFF, 0xFF, 0xFF]\<rparr>)"
    unfolding DrawImage_def Let_def coords using h1 h2 by (simp add: at sp)
  have ne: "example_fb\<lparr>fbData := Some [0xFF, 0xFF, 0xFF, 0x00, 0xFF, 0xFF, 0xFF, 0xFF]\<rparr> \<noteq> example_fb"
    by (simp add: example_fb_def)
  from di ne show ?thesis by simp
qed

section \<open>Opening and closing the device\<close>

lemma getScreenInfo_calls:
  "getScreenInfo os dev = (e, dev', calls) \<Longrightarrow> \<forall>n. SysMmap n \<notin> set calls"
  by (auto simp: getScreenInfo_def Let_def split: sum.splits)

lemma getScreenInfo_screenInfo:
  "getScreenInfo os dev = (None, dev', calls) \<Longrightarrow>
     fscreeninfo_result os = Inr (screenInfo dev')"
  by (auto simp: getScreenInfo_def Let_def split: sum.splits)

lemma uint_pos: "uint (w :: uint32) \<noteq> 0 \<Longrightarrow> 0 < uint w"
  by (simp add: order_less_le)

lemma mapMemory_calls:
  "mapMemory os dev = (e, dev', calls) \<Longrightarrow> SysMmap n \<in> set calls \<Longrightarrow>
     n = uint (SmemLen (screenInfo dev)) \<and> 0 < n \<and> n \<le> 2 ^ 30"
  by (auto simp: mapMemory_def Let_def uint_pos split: if_splits sum.splits)

lemma mapMemory_ok:
  "mapMemory os dev = (None, dev', calls) \<Longrightarrow>
     \<exists>data. fbData dev' = Some data \<and> int (length data) = uint (SmemLen (screenInfo dev)) \<and>
            0 < length data \<and> length data \<le> 2 ^ 30 \<and>
            mmap_result os (uint (SmemLen (screenInfo dev))) = Inr data"
  by (auto simp: mapMemory_def Let_def split: if_splits sum.splits)

lemma mapMemory_implausible:
  "SmemLen (screenInfo dev) = 0 \<or> 2 ^ 30 < uint (SmemLen (screenInfo dev)) \<Longrightarrow>
     mapMemory os dev = (Some (ImplausibleSize (uint (SmemLen (screenInfo dev)))), dev, [])"
  by (auto simp: mapMemory_def Let_def)

text \<open>
  C8. \<open>NewFrameBuffer\<close> asks for a mapping only of the reported screen-memory length and
  only when that length is positive and at most 1 GiB; when the device opens and
  answers both queries but reports a length of 0 or of more than 1 GiB, it returns the
  implausible-size error and makes no mapping call; and a frame buffer it returns has a
  mapping of the reported length, which is positive and at most 1 GiB.
\<close>

theorem NewFrameBuffer_maps_only_plausible_length:
  assumes "NewFrameBuffer os = (res, calls)"
  shows "(\<forall>n. SysMmap n \<in> set calls \<longrightarrow>
            0 < n \<and> n \<le> 1024 * 1024 * 1024 \<and>
            (\<exists>fi. fscreeninfo_result os = Inr fi \<and> n = uint (SmemLen fi))) \<and>
         (\<forall>fd fi var. open_result os = Inr fd \<and> fscreeninfo_result os = Inr fi \<and>
            vscreeninfo_result os = Inr var \<and>
            (SmemLen fi = 0 \<or> 1024 * 1024 * 1024 < uint (SmemLen fi)) \<longrightarrow>
            res = Inl (ImplausibleSize (uint (SmemLen fi))) \<and> (\<forall>n. SysMmap n \<notin> set calls)) \<and>
         (\<forall>dev. res = Inr dev \<longrightarrow>
            (\<exists>data. fbData dev = Some data \<and> 0 < length data \<and>
                    length data \<le> 1024 * 1024 * 1024 \<and>
                    int (length data) = uint (SmemLen (screenInfo dev))))"
proof (cases "open_result os")
  case (Inl e)
  with assms show ?thesis by (auto simp: NewFrameBuffer_def)
next
  case (Inr fd)
  define dev0 where "dev0 = zero_FrameBuffer\<lparr>device := Some fd\<rparr>"
  obtain e1 dev1 calls1 where g: "getScreenInfo os dev0 = (e1, dev1, calls1)"
    by (cases "getScreenInfo os dev0")
  note nomap1 = getScreenInfo_calls [OF g]
  show ?thesis
  proof (cases e1)
    case (Some err)
    have res: "res = Inl err" "calls = SysOpen # calls1 @ [SysClose fd]"
      using assms Inr g Some by (simp_all add: NewFrameBuffer_def dev0_def [symmetric] Let_def)
    have "fscreeninfo_result os = Inr fi \<Longrightarrow> vscreeninfo_result os = Inr var \<Longrightarrow> False"
      for fi var
      using g Some by (auto simp: getScreenInfo_def Let_def)
    with res nomap1 show ?thesis by auto
  next
    case None
    note finfo = getScreenInfo_screenInfo [OF g [unfolded None]]
    obtain e2 dev2 calls2 where m: "mapMemory os dev1 = (e2, dev2, calls2)"
      by (cases "mapMemory os dev1")
    have calls: "set calls \<subseteq> insert SysOpen (insert (SysClose fd) (set calls1 \<union> set calls2))"
      and res: "res = (case e2 of Some err \<Rightarrow> Inl err | None \<Rightarrow> Inr dev2)"
      using assms Inr g None m
      by (auto simp: NewFrameBuffer_def dev0_def [symmetric] Let_def split: option.splits)
    have mm: "0 < n \<and> n \<le> 1024 * 1024 * 1024 \<and>
              (\<exists>fi. fscreeninfo_result os = Inr fi \<and> n = uint (SmemLen fi))"
      if "SysMmap n \<in> set calls" for n
    proof -
      from that calls nomap1 have "SysMmap n \<in> set calls2" by auto
      from mapMemory_calls [OF m this] finfo show ?thesis by auto
    qed
    have impl: "res = Inl (ImplausibleSize (uint (SmemLen fx))) \<and> (\<forall>n. SysMmap n \<notin> set calls)"
      if "fscreeninfo_result os = Inr fx"
         "SmemLen fx = 0 \<or> 1024 * 1024 * 1024 < uint (SmemLen fx)" for fx
    proof -
      from that finfo have fx: "fx = screenInfo dev1" by simp
      from mapMemory_implausible [of dev1 os] that(2) m
      have "e2 = Some (ImplausibleSize (uint (SmemLen fx)))" "calls2 = []"
        unfolding fx by auto
      with res calls nomap1 show ?thesis by auto
    qed
    have ok: "\<exists>data. fbData dev = Some data \<and> 0 < length data \<and>
                    length data \<le> 1024 * 1024 * 1024 \<and>
                    int (length data) = uint (SmemLen (screenInfo dev))"
      if "res = Inr dev" for dev
    proof -
      from that res have e2: "e2 = None" and dev: "dev = dev2" by (auto split: option.splits)
      from mapMemory_ok [OF m [unfolded e2]] obtain data where
        d: "fbData dev2 = Some data" "int (length data) = uint (SmemLen (screenInfo dev1))"
           "0 < length data" "length data \<le> 2 ^ 30" by blast
      have "screenInfo dev2 = screenInfo dev1"
        using m e2 by (auto simp: mapMemory_def Let_def split: if_splits sum.splits)
      with d dev show ?thesis by auto
    qed
    from mm impl ok show ?thesis by blast
  qed
qed

theorem NewFrameBuffer_maps_only_plausible_length_witness:
  "NewFrameBuffer example_fb_os =
     (Inr (example_fb\<lparr>fbData := Some [0, 0, 0, 0, 0, 0, 0, 0]\<rparr>),
      [SysOpen, SysIoctl FBIOGET_FSCREENINFO, SysIoctl FBIOGET_VSCREENINFO, SysMmap 8]) \<and>
   (0::int) < 8 \<and> (8::int) \<le> 1024 * 1024 * 1024 \<and>
   (\<exists>data. fbData (example_fb\<lparr>fbData := Some [0, 0, 0, 0, 0, 0, 0, 0]\<rparr>) = Some data \<and>
      length data = 8) \<and>
   (\<exists>calls. NewFrameBuffer
              (example_fb_os\<lparr>fscreeninfo_result := Inr \<lparr>SmemLen = 0, LineLength = 8\<rparr>\<rparr>) =
              (Inl (ImplausibleSize 0), calls) \<and> (\<forall>n. SysMmap n \<notin> set calls))"
proof -
  let ?dev = "example_fb\<lparr>fbData := Some [0, 0, 0, 0, 0, 0, 0, 0]\<rparr>"
  let ?os0 = "example_fb_os\<lparr>fscreeninfo_result := Inr \<lparr>SmemLen = 0, LineLength = 8\<rparr>\<rparr>"
  have run: "NewFrameBuffer example_fb_os =
     (Inr ?dev, [SysOpen, SysIoctl FBIOGET_FSCREENINFO, SysIoctl FBIOGET_VSCREENINFO, SysMmap 8])"
    by (simp add: NewFrameBuffer_def example_fb_os_def getScreenInfo_def mapMemory_def
          zero_FrameBuffer_def example_fb_def Let_def)
  note t = NewFrameBuffer_maps_only_plausible_length [OF run]
  from t have a: "0 < (8::int) \<and> (8::int) \<le> 1024 * 1024 * 1024" by simp
  from t obtain data where d: "fbData ?dev = Some data"
    "int (length data) = uint (SmemLen (screenInfo ?dev))" by blast
  from d(2) have "length data = 8" by (simp add: example_fb_def)
  with d(1) have b: "\<exists>data. fbData ?dev = Some data \<and> length data = 8" by blast
  obtain res0 calls0 where run0: "NewFrameBuffer ?os0 = (res0, calls0)"
    by (cases "NewFrameBuffer ?os0")
  have os0: "open_result ?os0 = Inr 3 \<and>
             fscreeninfo_result ?os0 = Inr \<lparr>SmemLen = 0, LineLength = 8\<rparr> \<and>
             vscreeninfo_result ?os0 = Inr \<lparr>XRes = 2, YRes = 1, BitsPerPixel = 32\<rparr> \<and>
             (SmemLen \<lparr>SmemLen = 0, LineLength = 8\<rparr> = 0 \<or>
              1024 * 1024 * 1024 < uint (SmemLen \<lparr>SmemLen = 0, LineLength = 8\<rparr>))"
    by (simp add: example_fb_os_def)
  note t0 = NewFrameBuffer_maps_only_plausible_length [OF run0]
  from t0 os0 have "res0 = Inl (ImplausibleSize (uint (SmemLen \<lparr>SmemLen = 0, LineLength = 8\<rparr>))) \<and>
                    (\<forall>n. SysMmap n \<notin> set calls0)"
    by blast
  with run0 have c: "\<exists>calls. NewFrameBuffer ?os0 = (Inl (ImplausibleSize 0), calls) \<and>
                       (\<forall>n. SysMmap n \<notin> set calls)" by simp
  from run a b c show ?thesis by simp
qed

text \<open>
  C9. The first \<open>Close\<close> of an open frame buffer unmaps the region and then closes the
  descriptor, clears both and sets the closed flag; every \<open>Close\<close> after a \<open>Close\<close>
  makes no system call, returns no error and leaves the state as it is.
\<close>

theorem Close_idempotent:
  assumes "Close munmap_res close_res dev = (err, dev', calls)"
  shows "Close munmap_res' close_res' dev' = (None, dev', []) \<and>
         (\<not> closed dev \<and> fbData dev \<noteq> None \<and> device dev \<noteq> None \<longrightarrow>
            calls = [SysMunmap, SysClose (the (device dev))] \<and>
            closed dev' \<and> fbData dev' = None \<and> device dev' = None)"
proof -
  from assms have "dev' = fst (snd (Close munmap_res close_res dev))" by simp
  then have "closed dev'" by (simp add: Close_closed)
  then have again: "Close munmap_res' close_res' dev' = (None, dev', [])"
    by (simp add: Close_def)
  have first: "calls = [SysMunmap, SysClose (the (device dev))] \<and>
               closed dev' \<and> fbData dev' = None \<and> device dev' = None"
    if "\<not> closed dev \<and> fbData dev \<noteq> None \<and> device dev \<noteq> None"
    using assms that by (auto simp: Close_def Let_def split: option.splits)
  from again first show ?thesis by blast
qed

theorem Close_idempotent_witness:
  "Close None None example_fb =
     (None, example_fb\<lparr>fbData := None, device := None, closed := True\<rparr>, [SysMunmap, SysClose 3]) \<and>
   Close None None (example_fb\<lparr>fbData := None, device := None, closed := True\<rparr>) =
     (None, example_fb\<lparr>fbData := None, device := None, closed := True\<rparr>, [])"
proof -
  have run: "Close None None example_fb =
     (None, example_fb\<lparr>fbData := None, device := None, closed := True\<rparr>, [SysMunmap, SysClose 3])"
    by (simp add: Close_def example_fb_def Let_def)
  from Close_idempotent [OF run, of None None] run show ?thesis by simp
qed

section \<open>The raw terminal\<close>

lemma setRawMode_before_TCSETS:
  "setRawMode os ki term = (Some err, ki', term') \<Longrightarrow>
     (\<forall>e. err \<noteq> HideCursorFailed e) \<Longrightarrow> term' = term"
  by (auto simp: setRawMode_def hideCursor_def Let_def split: if_splits option.splits)

lemma NewKeyboardInput_failure_before_TCSETS:
  "NewKeyboardInput os term = (Inl err, term') \<Longrightarrow>
     (\<forall>e. err \<noteq> HideCursorFailed e) \<Longrightarrow> term' = term"
  by (auto simp: NewKeyboardInput_def Let_def split: sum.splits option.splits prod.splits
           dest: setRawMode_before_TCSETS)

lemma ReadKeyNonBlockingWithTimeout_EINTR:
  "\<not> closed_ki ki \<Longrightarrow> device_ki ki = Some fd \<Longrightarrow> 0 \<le> fd \<Longrightarrow> fd < 1024 \<Longrightarrow>
     ReadKeyNonBlockingWithTimeout ki timeout (Inl EINTR) read_res = (Returned, 0, False, None)"
  by (simp add: ReadKeyNonBlockingWithTimeout_def quot_nonneg)

text \<open>
  C4 fails on the code: in the polling variant \<open>ReadKeyNonBlocking\<close> a readiness check
  interrupted by a signal (error number \<open>EINTR\<close>) is returned as an error; only the
  variant with a timeout answers "no data, no error".
\<close>

theorem ReadKeyNonBlocking_EINTR_is_an_error:
  "ReadKeyNonBlocking example_ki (Inl EINTR) read_res =
     (Returned, 0, False, Some (SelectFailed EINTR)) \<and>
   ReadKeyNonBlockingWithTimeout example_ki timeout (Inl EINTR) read_res =
     (Returned, 0, False, None)"
  by (simp add: ReadKeyNonBlocking_def ReadKeyNonBlockingWithTimeout_def example_ki_def quot_def)

text \<open>
  C5 fails on the code: when the attributes were read and the raw ones applied, and then
  the write of the hide-cursor sequence fails, \<open>NewKeyboardInput\<close> returns the error
  and leaves the terminal with the raw attributes: canonical mode and echo stay off.
\<close>

theorem NewKeyboardInput_failure_leaves_raw_mode:
  "NewKeyboardInput example_kb_os example_terminal =
     (Inl (HideCursorFailed 5), example_terminal\<lparr>attrs := raw_of (attrs example_terminal)\<rparr>) \<and>
   Lflag (attrs example_terminal) AND (ICANON OR ECHO) = ICANON OR ECHO \<and>
   Lflag (raw_of (attrs example_terminal)) AND (ICANON OR ECHO) = 0"
  by (simp add: NewKeyboardInput_def example_kb_os_def setRawMode_def hideCursor_def
        zero_KeyboardInput_def example_terminal_def raw_of_def Let_def
        ICANON_def ECHO_def ECHOE_def ECHOK_def ECHONL_def ECHOPRT_def ECHOKE_def ICRNL_def)

section \<open>The differential renderer\<close>

lemma fb_DrawImage_calls:
  "fb_DrawImage mr img x y = (r, mr') \<Longrightarrow> fb_calls mr' = fb_calls mr @ [CallDrawImage x y]"
  by (auto simp: fb_DrawImage_def split: prod.splits)

lemma renderTextAt_calls:
  "renderTextAt env mr text x y = (r, mr') \<Longrightarrow> \<exists>rest. fb_calls mr' = fb_calls mr @ rest"
  by (auto simp: renderTextAt_def split: if_splits sum.splits dest: fb_DrawImage_calls)

lemma renderLines_calls:
  "renderLines env mr ls y step = (r, mr', y') \<Longrightarrow> \<exists>rest. fb_calls mr' = fb_calls mr @ rest"
proof (induction ls arbitrary: mr y)
  case Nil
  then show ?case by simp
next
  case (Cons l ls)
  obtain r1 mr1 where t: "renderTextAt env mr l 20 y = (r1, mr1)"
    by (cases "renderTextAt env mr l 20 y")
  from renderTextAt_calls [OF t] obtain rest1 where p1: "fb_calls mr1 = fb_calls mr @ rest1" ..
  show ?case
  proof (cases r1)
    case NoError
    with Cons.prems t have "renderLines env mr1 ls (i64 (y + step)) step = (r, mr', y')" by simp
    from Cons.IH [OF this] p1 show ?thesis by auto
  next
    case (Error e)
    with Cons.prems t p1 show ?thesis by simp
  next
    case Panic
    with Cons.prems t p1 show ?thesis by simp
  qed
qed

lemma renderQRCode_calls:
  "renderQRCode env mr content x y = (r, mr', y') \<Longrightarrow> \<exists>rest. fb_calls mr' = fb_calls mr @ rest"
  unfolding renderQRCode_def Let_def
  by (auto split: sum.splits prod.splits result.splits
           dest!: renderTextAt_calls fb_DrawImage_calls)

lemma renderNewMainMenu_calls:
  "renderNewMainMenu env mr sysInfo = (r, mr') \<Longrightarrow> \<exists>rest. fb_calls mr' = fb_calls mr @ rest"
  unfolding renderNewMainMenu_def Let_def
  by (auto split: prod.splits result.splits if_splits
           dest!: renderTextAt_calls renderLines_calls renderQRCode_calls)

lemma RenderMainMenu_skip:
  "generateNewMainMenuContent sysInfo = lastContent mr \<Longrightarrow> staticRendered mr \<Longrightarrow>
     RenderMainMenu env mr sysInfo = (NoError, mr)"
  by (simp add: RenderMainMenu_def)

lemma RenderMainMenu_repaint:
  assumes "\<not> (generateNewMainMenuContent sysInfo = lastContent mr \<and> staticRendered mr)"
  shows "\<exists>rest. fb_calls (snd (RenderMainMenu env mr sysInfo)) = fb_calls mr @ CallClear # rest"
proof -
  let ?mr1 = "(fb_Clear mr)\<lparr>needsClear := False\<rparr>"
  obtain r mr2 where p: "renderNewMainMenu env ?mr1 sysInfo = (r, mr2)"
    by (cases "renderNewMainMenu env ?mr1 sysInfo")
  from renderNewMainMenu_calls [OF p] obtain rest where
    "fb_calls mr2 = fb_calls ?mr1 @ rest" ..
  then have c: "fb_calls mr2 = fb_calls mr @ CallClear # rest" by (simp add: fb_Clear_def)
  have "fb_calls (snd (RenderMainMenu env mr sysInfo)) = fb_calls mr2"
    using assms p by (cases r) (auto simp: RenderMainMenu_def Let_def)
  with c show ?thesis by simp
qed

lemma RenderMainMenu_success_caches:
  assumes "RenderMainMenu env mr sysInfo = (NoError, mr')"
  shows "lastContent mr' = generateNewMainMenuContent sysInfo \<and> staticRendered mr'"
proof (cases "generateNewMainMenuContent sysInfo = lastContent mr \<and> staticRendered mr")
  case True
  with assms show ?thesis by (simp add: RenderMainMenu_def)
next
  case False
  with assms show ?thesis
    by (auto simp: RenderMainMenu_def Let_def split: prod.splits result.splits)
qed

lemma Run_step_ticker_repaints:
  assumes "running app" and "Run_step env app CaseTicker t = Some (ctl, app', t')"
  shows "\<exists>rest. fb_calls (menuRenderer app') = fb_calls (menuRenderer app) @ CallClear # rest"
proof -
  let ?mr = "InvalidateCache (menuRenderer app)"
  have "\<not> (generateNewMainMenuContent (GetSystemInfo env t) = lastContent ?mr \<and> staticRendered ?mr)"
    by (simp add: InvalidateCache_def)
  from RenderMainMenu_repaint [OF this, of env] obtain rest where
    r: "fb_calls (snd (RenderMainMenu env ?mr (GetSystemInfo env t))) =
          fb_calls (menuRenderer app) @ CallClear # rest"
    by (auto simp: InvalidateCache_def)
  have "menuRenderer app' = snd (RenderMainMenu env ?mr (GetSystemInfo env t))"
    using assms
    by (auto simp: Run_step_def showMainMenu_def log_Printf_def
             split: prod.splits result.splits)
  with r show ?thesis by simp
qed

text \<open>
  C3, as amended. \<open>RenderMainMenu\<close> makes no call on the frame buffer if and only if
  the fingerprint of the snapshot equals the cached one and the static-content flag is
  set, and then it changes nothing at all; otherwise its first call clears the device.
  A \<open>RenderMainMenu\<close> that follows a successful one, with the same snapshot and no
  invalidation in between, makes no call. The periodic refresh of the main loop
  invalidates the cache first: while the running flag is set, every timer tick clears
  the device and repaints, whether the snapshot changed or not.
\<close>

theorem repaint_skipped_iff_cached:
  "(fb_calls (snd (RenderMainMenu env mr sysInfo)) = fb_calls mr \<longleftrightarrow>
      generateNewMainMenuContent sysInfo = lastContent mr \<and> staticRendered mr) \<and>
   (generateNewMainMenuContent sysInfo = lastContent mr \<and> staticRendered mr \<longrightarrow>
      RenderMainMenu env mr sysInfo = (NoError, mr)) \<and>
   (\<not> (generateNewMainMenuContent sysInfo = lastContent mr \<and> staticRendered mr) \<longrightarrow>
      (\<exists>rest. fb_calls (snd (RenderMainMenu env mr sysInfo)) = fb_calls mr @ CallClear # rest)) \<and>
   (\<forall>mr'. RenderMainMenu env mr sysInfo = (NoError, mr') \<longrightarrow>
      RenderMainMenu env mr' sysInfo = (NoError, mr')) \<and>
   (\<forall>ctl app' t'. running app \<and> Run_step env app CaseTicker t = Some (ctl, app', t') \<longrightarrow>
      (\<exists>rest. fb_calls (menuRenderer app') = fb_calls (menuRenderer app) @ CallClear # rest))"
proof -
  have skip: "RenderMainMenu env mr sysInfo = (NoError, mr)"
    if "generateNewMainMenuContent sysInfo = lastContent mr \<and> staticRendered mr"
    using that by (simp add: RenderMainMenu_skip)
  have rep: "\<exists>rest. fb_calls (snd (RenderMainMenu env mr sysInfo)) = fb_calls mr @ CallClear # rest"
    if "\<not> (generateNewMainMenuContent sysInfo = lastContent mr \<and> staticRendered mr)"
    using that by (rule RenderMainMenu_repaint)
  have iff: "fb_calls (snd (RenderMainMenu env mr sysInfo)) = fb_calls mr \<longleftrightarrow>
      generateNewMainMenuContent sysInfo = lastContent mr \<and> staticRendered mr"
    using skip rep by (cases "generateNewMainMenuContent sysInfo = lastContent mr \<and> staticRendered mr") auto
  have again: "RenderMainMenu env mr' sysInfo = (NoError, mr')"
    if "RenderMainMenu env mr sysInfo = (NoError, mr')" for mr'
    using RenderMainMenu_success_caches [OF that] by (simp add: RenderMainMenu_skip)
  have tick: "\<exists>rest. fb_calls (menuRenderer app') = fb_calls (menuRenderer app) @ CallClear # rest"
    if "running app \<and> Run_step env app CaseTicker t = Some (ctl, app', t')" for ctl app' t'
    using that Run_step_ticker_repaints by blast
  from iff skip rep again tick show ?thesis by blast
qed

lemma example_renderTextAt_ok:
  assumes "width (fb mr) \<le> 20"
  shows "\<exists>mr'. renderTextAt example_env mr text 20 y = (NoError, mr') \<and> width (fb mr') \<le> 20"
  using assms
  by (cases "text = []")
     (simp_all add: renderTextAt_def example_env_def fb_DrawImage_def DrawImage_beyond)

lemma example_renderLines_ok:
  assumes "width (fb mr) \<le> 20"
  shows "\<exists>mr' y'. renderLines example_env mr ls y step = (NoError, mr', y') \<and> width (fb mr') \<le> 20"
  using assms
proof (induction ls arbitrary: mr y)
  case Nil
  then show ?case by simp
next
  case (Cons l ls)
  from example_renderTextAt_ok [OF Cons.prems, of l y] obtain mr1 where
    t: "renderTextAt example_env mr l 20 y = (NoError, mr1)" and w: "width (fb mr1) \<le> 20"
    by blast
  from Cons.IH [OF w, of "i64 (y + step)"] t show ?case by simp
qed

lemma renderNewMainMenu_ok:
  assumes hl: "\<And>m ls y step. P m \<Longrightarrow>
            \<exists>m' y'. renderLines env m ls y step = (NoError, m', y') \<and> P m'"
      and ht: "\<And>m txt y. P m \<Longrightarrow> \<exists>m'. renderTextAt env m txt 20 y = (NoError, m') \<and> P m'"
      and "P mr" and "QianKunCloudID sysInfo = []"
  shows "\<exists>mr'. renderNewMainMenu env mr sysInfo = (NoError, mr') \<and> P mr'"
proof -
  define ch where "ch = snd (GetTextBounds env [0x5B57])"
  from hl [OF assms(3)] obtain m1 y1 where
    s1: "renderLines env mr [[0x7CFB, 0x7EDF, 0x4FE1, 0x606F], separatorLine] (i64 (ch + 10))
           (i64 (ch + 5)) = (NoError, m1, y1)" and p1: "P m1" by blast
  from hl [OF p1] obtain m2 y2 where
    s2: "renderLines env m1 (systemContent sysInfo) y1 (i64 (ch + 3)) = (NoError, m2, y2)"
    and p2: "P m2" by blast
  from ht [OF p2] obtain m3 where
    s3: "renderTextAt env m2 separatorLine 20 y2 = (NoError, m3)" and p3: "P m3" by blast
  from ht [OF p3] obtain m4 where
    s4: "renderTextAt env m3
           [0x4E8C, 0x7EF4, 0x7801, 0x751F, 0x6210, 0x5931, 0x8D25, 0xFF1A, 0x65E0, 0x6CD5, 0x83B7,
            0x53D6, 0x4E7E, 0x5764, 0x4E91, 0x8BBE, 0x5907, 0x49, 0x44] 20
           (i64 (y2 + i64 (ch + 10))) = (NoError, m4)" and p4: "P m4" by blast
  from ht [OF p4] obtain m5 where
    s5: "renderTextAt env m4 separatorLine2 20
           (i64 (i64 (y2 + i64 (ch + 10)) + i64 (ch + 20))) = (NoError, m5)" and p5: "P m5"
    by blast
  from hl [OF p5] obtain m6 y6 where
    s6: "renderLines env m5 customerServiceContent
           (i64 (i64 (i64 (y2 + i64 (ch + 10)) + i64 (ch + 20)) + i64 (ch + 10)))
           (i64 (ch + 3)) = (NoError, m6, y6)" and p6: "P m6" by blast
  have "renderNewMainMenu env mr sysInfo = (NoError, m6)"
    by (simp only: renderNewMainMenu_def Let_def ch_def [symmetric] s1 s2 s3 s4 s5 s6 assms(4)
          prod.case result.case simp_thms if_True if_False)
  with p6 show ?thesis by blast
qed

lemma example_tick:
  assumes "running app" and "width (fb (menuRenderer app)) \<le> 20"
  shows "\<exists>app'. Run_step example_env app CaseTicker t = Some (Continue, app', t) \<and>
           running app' \<and> width (fb (menuRenderer app')) \<le> 20 \<and>
           lastContent (menuRenderer app') = generateNewMainMenuContent example_sysinfo \<and>
           staticRendered (menuRenderer app') \<and>
           RenderMainMenu example_env (InvalidateCache (menuRenderer app)) example_sysinfo =
             (NoError, menuRenderer app')"
proof -
  let ?mr1 = "(fb_Clear (InvalidateCache (menuRenderer app)))\<lparr>needsClear := False\<rparr>"
  have w1: "width (fb ?mr1) \<le> 20"
    using assms(2) by (simp add: fb_Clear_def InvalidateCache_def Clear_def)
  have id: "QianKunCloudID example_sysinfo = []" by (simp add: example_sysinfo_def)
  from renderNewMainMenu_ok [where P = "\<lambda>m. width (fb m) \<le> 20" and env = example_env,
         OF example_renderLines_ok example_renderTextAt_ok w1 id]
  obtain mr2 where p: "renderNewMainMenu example_env ?mr1 example_sysinfo = (NoError, mr2)"
    and w2: "width (fb mr2) \<le> 20" by blast
  have si: "GetSystemInfo example_env t = example_sysinfo" by (simp add: example_env_def)
  have r: "RenderMainMenu example_env (InvalidateCache (menuRenderer app)) example_sysinfo =
             (NoError, mr2\<lparr>lastContent := generateNewMainMenuContent example_sysinfo,
                            staticRendered := True\<rparr>)"
    by (simp add: RenderMainMenu_def Let_def p) (simp add: InvalidateCache_def)
  have "Run_step example_env app CaseTicker t =
          Some (Continue, app\<lparr>menuRenderer := mr2\<lparr>lastContent :=
                  generateNewMainMenuContent example_sysinfo, staticRendered := True\<rparr>\<rparr>, t)"
    using assms(1) by (simp add: Run_step_def showMainMenu_def si r)
  with assms(1) w2 r show ?thesis by simp
qed

lemma example_app_ready: "running example_app" "width (fb (menuRenderer example_app)) \<le> 20"
  by (simp_all add: example_app_def NewMenuRenderer_def example_fb_def)

lemma example_app1_run:
  "Run_step example_env example_app CaseTicker 0 = Some (Continue, example_app1, 0)"
  "running example_app1" "width (fb (menuRenderer example_app1)) \<le> 20"
  "lastContent (menuRenderer example_app1) = generateNewMainMenuContent example_sysinfo"
  "staticRendered (menuRenderer example_app1)"
  "RenderMainMenu example_env (InvalidateCache (menuRenderer example_app)) example_sysinfo =
     (NoError, menuRenderer example_app1)"
proof -
  from example_tick [OF example_app_ready, of 0] obtain app' where
    a: "Run_step example_env example_app CaseTicker 0 = Some (Continue, app', 0)"
       "running app'" "width (fb (menuRenderer app')) \<le> 20"
       "lastContent (menuRenderer app') = generateNewMainMenuContent example_sysinfo"
       "staticRendered (menuRenderer app')"
       "RenderMainMenu example_env (InvalidateCache (menuRenderer example_app)) example_sysinfo =
          (NoError, menuRenderer app')" by blast
  then have "example_app1 = app'" by (simp add: example_app1_def)
  with a show
    "Run_step example_env example_app CaseTicker 0 = Some (Continue, example_app1, 0)"
    "running example_app1" "width (fb (menuRenderer example_app1)) \<le> 20"
    "lastContent (menuRenderer example_app1) = generateNewMainMenuContent example_sysinfo"
    "staticRendered (menuRenderer example_app1)"
    "RenderMainMenu example_env (InvalidateCache (menuRenderer example_app)) example_sysinfo =
       (NoError, menuRenderer example_app1)" by simp_all
qed

lemma example_app2_run:
  "Run_step example_env example_app1 CaseTicker 5000 = Some (Continue, example_app2, 5000)"
proof -
  from example_tick [OF example_app1_run(2,3), of 5000] obtain app' where
    a: "Run_step example_env example_app1 CaseTicker 5000 = Some (Continue, app', 5000)" by blast
  then have "example_app2 = app'" by (simp add: example_app2_def)
  with a show ?thesis by simp
qed

theorem repaint_skipped_iff_cached_witness:
  "(generateNewMainMenuContent example_sysinfo = lastContent (menuRenderer example_app1) \<and>
    staticRendered (menuRenderer example_app1)) \<and>
   RenderMainMenu example_env (menuRenderer example_app1) example_sysinfo =
     (NoError, menuRenderer example_app1) \<and>
   \<not> staticRendered (menuRenderer example_app) \<and>
   (\<exists>rest. fb_calls (snd (RenderMainMenu example_env (menuRenderer example_app) example_sysinfo)) =
             fb_calls (menuRenderer example_app) @ CallClear # rest) \<and>
   RenderMainMenu example_env (InvalidateCache (menuRenderer example_app)) example_sysinfo =
     (NoError, menuRenderer example_app1) \<and>
   running example_app1 \<and>
   Run_step example_env example_app1 CaseTicker 5000 = Some (Continue, example_app2, 5000) \<and>
   (\<exists>rest. fb_calls (menuRenderer example_app2) =
             fb_calls (menuRenderer example_app1) @ CallClear # rest)"
proof -
  have ns: "\<not> staticRendered (menuRenderer example_app)"
    by (simp add: example_app_def NewMenuRenderer_def)
  have cached: "generateNewMainMenuContent example_sysinfo = lastContent (menuRenderer example_app1) \<and>
                staticRendered (menuRenderer example_app1)"
    using example_app1_run(4,5) by simp
  note t1 = repaint_skipped_iff_cached
         [of example_env "menuRenderer example_app1" example_sysinfo example_app1 5000]
  note t0 = repaint_skipped_iff_cached
         [of example_env "menuRenderer example_app" example_sysinfo example_app 0]
  note t2 = repaint_skipped_iff_cached
         [of example_env "InvalidateCache (menuRenderer example_app)" example_sysinfo example_app 0]
  from t1 cached have "RenderMainMenu example_env (menuRenderer example_app1) example_sysinfo =
     (NoError, menuRenderer example_app1)" by blast
  from t2 example_app1_run(6)
  have skip: "RenderMainMenu example_env (menuRenderer example_app1) example_sysinfo =
     (NoError, menuRenderer example_app1)" by blast
  from t0 ns have paint: "\<exists>rest. fb_calls (snd (RenderMainMenu example_env (menuRenderer example_app)
         example_sysinfo)) = fb_calls (menuRenderer example_app) @ CallClear # rest" by blast
  from t1 example_app1_run(2) example_app2_run
  have tick: "\<exists>rest. fb_calls (menuRenderer example_app2) =
             fb_calls (menuRenderer example_app1) @ CallClear # rest" by blast
  from cached skip ns paint example_app1_run(2,6) example_app2_run tick show ?thesis by blast
qed

text \<open>
  C3 as stated fails in the main loop: the snapshot is the same at both timer ticks and
  the first tick leaves the fingerprint cached and the static-content flag set, yet the
  second tick makes calls on the frame buffer again.
\<close>

theorem repaint_skipped_iff_cached_counterexample:
  "GetSystemInfo example_env 5000 = GetSystemInfo example_env 0 \<and>
   Run_step example_env example_app CaseTicker 0 = Some (Continue, example_app1, 0) \<and>
   lastContent (menuRenderer example_app1) =
     generateNewMainMenuContent (GetSystemInfo example_env 5000) \<and>
   staticRendered (menuRenderer example_app1) \<and>
   Run_step example_env example_app1 CaseTicker 5000 = Some (Continue, example_app2, 5000) \<and>
   length (fb_calls (menuRenderer example_app1)) < length (fb_calls (menuRenderer example_app2)) \<and>
   fb_calls (menuRenderer example_app2) ! length (fb_calls (menuRenderer example_app1)) = CallClear"
proof -
  have si: "GetSystemInfo example_env t = example_sysinfo" for t by (simp add: example_env_def)
  from Run_step_ticker_repaints [OF example_app1_run(2) example_app2_run] obtain rest where
    "fb_calls (menuRenderer example_app2) = fb_calls (menuRenderer example_app1) @ CallClear # rest"
    ..
  then have "length (fb_calls (menuRenderer example_app1)) < length (fb_calls (menuRenderer example_app2))"
    "fb_calls (menuRenderer example_app2) ! length (fb_calls (menuRenderer example_app1)) = CallClear"
    by simp_all
  with example_app1_run example_app2_run si show ?thesis by simp
qed

section \<open>Waits with and without a timer\<close>

lemma await_Some:
  assumes "await pick s t = Some p"
  shows "t \<le> snd p \<and> (\<exists>e. s (snd p) = Some e \<and> pick e = Some (fst p))"
proof (induct rule: await.raw_induct [OF _ assms])
  case (1 aw pick s t p)
  show ?case
  proof (cases "s t")
    case None
    with 1(2) have "aw pick s (Suc t) = Some p" by simp
    from 1(1) [OF this] show ?thesis by auto
  next
    case (Some e)
    show ?thesis
    proof (cases "pick e")
      case None
      with 1(2) Some have "aw pick s (Suc t) = Some p" by simp
      from 1(1) [OF this] show ?thesis by auto
    next
      case (Some r')
      with 1(2) \<open>s t = Some e\<close> show ?thesis by auto
    qed
  qed
qed

lemma await_quiet:
  assumes "\<And>t'. t \<le> t' \<Longrightarrow> (case s t' of None \<Rightarrow> True | Some e \<Rightarrow> pick e = None)"
  shows "await pick s t = None"
proof (cases "await pick s t")
  case (Some p)
  from await_Some [OF this] assms [of "snd p"] show ?thesis by auto
qed simp

lemma await_for_quiet:
  "(\<And>t'. t \<le> t' \<Longrightarrow> t' < t + n \<Longrightarrow>
       (case s t' of None \<Rightarrow> True | Some e \<Rightarrow> pick e = None)) \<Longrightarrow>
     await_for pick s t n = None"
proof (induction n arbitrary: t)
  case 0
  then show ?case by simp
next
  case (Suc n)
  have here: "case s t of None \<Rightarrow> True | Some e \<Rightarrow> pick e = None"
    using Suc.prems [of t] by simp
  have rest: "await_for pick s (Suc t) n = None"
    by (rule Suc.IH) (use Suc.prems in auto)
  from here rest show ?case by (auto split: option.splits)
qed

lemma pick_select_quiet:
  assumes "(\<forall>k. s t' \<noteq> Some (KeyByte k)) \<and> s t' \<noteq> Some CtxDone"
  shows "case s t' of None \<Rightarrow> True | Some e \<Rightarrow> pick_select e = None"
proof (cases "s t'")
  case (Some e)
  with assms show ?thesis by (cases e) auto
qed simp

lemma pick_read_quiet:
  assumes "s t' = None \<or> s t' = Some CtxDone"
  shows "case s t' of None \<Rightarrow> True | Some e \<Rightarrow> pick_read e = None"
  using assms by auto

lemma select_ready_done:
  assumes "\<forall>k. s t \<noteq> Some (KeyByte k)"
  shows "select_ready s takes_key t = (GotDone, t)"
proof (cases "s t")
  case (Some e)
  with assms show ?thesis by (cases e) (simp_all add: select_ready_def)
qed (simp add: select_ready_def)

lemma done_before_iff: "done_before s t \<longleftrightarrow> (\<exists>t' < t. s t' = Some CtxDone)"
  by (induction t) (auto simp: less_Suc_eq)

lemma showConfigMenu_flags:
  "showConfigMenu env app = (r, app1) \<Longrightarrow> \<exists>mr. app1 = app\<lparr>menuRenderer := mr\<rparr>"
  by (auto simp: showConfigMenu_def split: prod.splits)

lemma configMenuLoop_quiet:
  assumes "fst (showConfigMenu env app) = NoError" and "\<not> ctx_done env app t"
      and "\<And>t'. t \<le> t' \<Longrightarrow> (\<forall>k. sched env t' \<noteq> Some (KeyByte k)) \<and> sched env t' \<noteq> Some CtxDone"
  shows "configMenuLoop env app t = None"
proof -
  obtain app1 where s: "showConfigMenu env app = (NoError, app1)"
    using assms(1) by (cases "showConfigMenu env app") simp
  from showConfigMenu_flags [OF s] assms(2) have c: "\<not> ctx_done env app1 t"
    by (auto simp: ctx_done_def)
  have "await pick_select (sched env) t = None"
    by (rule await_quiet) (rule pick_select_quiet, rule assms(3))
  then have "configMenuTurn env app t = None"
    by (simp add: configMenuTurn_def s c select_key_or_done_def)
  then show ?thesis by (subst configMenuLoop.simps) simp
qed

lemma wait_any_key_quiet:
  assumes "\<not> closed_ki (keyboard app)" and "device_ki (keyboard app) \<noteq> None"
      and "\<And>t'. t \<le> t' \<Longrightarrow> sched env t' = None \<or> sched env t' = Some CtxDone"
  shows "wait_any_key env app location t = None"
proof -
  have "await pick_read (sched env) t = None"
    by (rule await_quiet) (rule pick_read_quiet, rule assms(3))
  then show ?thesis using assms(1,2) by (simp add: wait_any_key_def ReadKey_def)
qed

lemma example_draw_text_block:
  "width (fb mr) \<le> 20 \<Longrightarrow> fst (draw_text_block example_env mr what content) = NoError"
  by (simp add: draw_text_block_def example_env_def fb_DrawImage_def DrawImage_beyond)

lemma fb_Clear_width: "width (fb (fb_Clear mr)) = width (fb mr)"
  by (simp add: fb_Clear_def Clear_def)

lemma example_showConfigMenu:
  assumes "width (fb (menuRenderer app)) \<le> 20"
  shows "fst (showConfigMenu example_env app) = NoError"
proof -
  let ?mr = "(fb_Clear (menuRenderer app))\<lparr>needsClear := True, staticRendered := False\<rparr>"
  have "width (fb ?mr) \<le> 20" using assms by (simp add: fb_Clear_width)
  from example_draw_text_block [OF this] show ?thesis
    by (simp add: showConfigMenu_def RenderConfigMenu_def case_prod_beta)
qed

lemma example_RenderMessage:
  assumes "width (fb mr) \<le> 20"
  shows "fst (RenderMessage example_env mr message) = NoError"
proof -
  have "width (fb (fb_Clear mr)) \<le> 20" using assms by (simp add: fb_Clear_width)
  from example_draw_text_block [OF this] show ?thesis by (simp add: RenderMessage_def)
qed

lemma showMessage_quiet:
  assumes "\<And>m. fst (RenderMessage env (menuRenderer app) m) = NoError"
      and "\<not> closed_ki (keyboard app)" and "device_ki (keyboard app) \<noteq> None"
      and "\<And>t'. t \<le> t' \<Longrightarrow> sched env t' = None \<or> sched env t' = Some CtxDone"
  shows "showMessage env app message t = None"
proof -
  have ok: "r = NoError" if "RenderMessage env (menuRenderer app) m = (r, mr')" for m r mr'
    using assms(1) [of m] that by simp
  have w: "wait_any_key env (app\<lparr>menuRenderer := mr'\<rparr>) location t = None" for mr' location
    by (rule wait_any_key_quiet) (use assms(2-4) in simp_all)
  show ?thesis
    by (auto simp: showMessage_def w split: prod.splits result.splits dest: ok)
qed

text \<open>
  C7, as amended. Only the earlier revision of \<open>enterConfigMenu\<close> has a timer in its
  \<open>select\<close>. There, when no key and no cancellation arrives during the 30 seconds after
  the menu is shown, the function returns by then, with the running flag set and the
  ticker reset: when the menu was drawn without error it returns \<open>nil\<close> exactly at the
  timeout, having logged the timeout, and when the context was cancelled before, by this
  program or by another goroutine, it returns \<open>nil\<close> at once. In the current revision, the one with the exit-disabled
  switch, no interactive wait has a timer: when no key and no cancellation ever arrives,
  \<open>enterConfigMenu\<close> does not return; and the wait for a key that ends a dialog does
  not return while the terminal delivers neither a byte nor a read error, cancelled or
  not.
\<close>

theorem enterConfigMenu_timed_returns_at_timeout:
  assumes "\<forall>t'. t \<le> t' \<and> t' < t + 30000 \<longrightarrow>
             (\<forall>k. sched env t' \<noteq> Some (KeyByte k)) \<and> sched env t' \<noteq> Some CtxDone"
  shows "(\<exists>r app' t'. enterConfigMenu_timed env handleChoice showMsg app t = Some (r, app', t') \<and>
            t' \<le> t + 30000 \<and> running app' \<and> ticker_active app') \<and>
         (\<forall>app1. \<not> ctx_done env app t \<and>
                 showConfigMenu env
                    (log_Printf (app\<lparr>running := False, ticker_active := False\<rparr>)
                       LogEnteredConfigMenu) = (NoError, app1) \<longrightarrow>
            enterConfigMenu_timed env handleChoice showMsg app t =
              Some (NoError,
                    log_Printf ((log_Printf app1 LogConfigMenuTimeout)
                                  \<lparr>running := True, ticker_active := True\<rparr>) LogLeftConfigMenu,
                    t + 30000)) \<and>
         (\<forall>app1. ctx_done env app t \<and>
                 showConfigMenu env
                    (log_Printf (app\<lparr>running := False, ticker_active := False\<rparr>)
                       LogEnteredConfigMenu) = (NoError, app1) \<longrightarrow>
            enterConfigMenu_timed env handleChoice showMsg app t =
              Some (NoError,
                    log_Printf (app1\<lparr>running := True, ticker_active := True\<rparr>) LogLeftConfigMenu,
                    t)) \<and>
         ((\<forall>t'. t \<le> t' \<longrightarrow>
             (\<forall>k. sched env t' \<noteq> Some (KeyByte k)) \<and> sched env t' \<noteq> Some CtxDone) \<and>
          \<not> ctx_done env app t \<and>
          fst (showConfigMenu env
                 (log_Printf (app\<lparr>running := False, ticker_active := False\<rparr>)
                    LogEnteredConfigMenu)) = NoError \<longrightarrow>
            enterConfigMenu env app t = None) \<and>
         ((\<forall>t'. t \<le> t' \<longrightarrow> sched env t' = None \<or> sched env t' = Some CtxDone) \<and>
          \<not> closed_ki (keyboard app) \<and> device_ki (keyboard app) \<noteq> None \<longrightarrow>
            wait_any_key env app location t = None)"
proof -
  let ?app0 = "log_Printf (app\<lparr>running := False, ticker_active := False\<rparr>) LogEnteredConfigMenu"
  have c0: "ctx_done env ?app0 t = ctx_done env app t" by (simp add: log_Printf_def ctx_done_def)
  have aw: "await_for pick_select (sched env) t 30000 = None"
    by (rule await_for_quiet) (rule pick_select_quiet, use assms in simp)
  have now: "\<forall>k. sched env t \<noteq> Some (KeyByte k)" using assms by simp
  obtain r1 app1 where s: "showConfigMenu env ?app0 = (r1, app1)"
    by (cases "showConfigMenu env ?app0")
  from showConfigMenu_flags [OF s] c0 have c1: "ctx_done env app1 t = ctx_done env app t"
    by (auto simp: ctx_done_def)
  have sel: "select_key_or_done_for (sched env) (select_takes_key env) (ctx_done env app1 t) t 30000 =
               (if ctx_done env app t then Some (GotDone, t) else None)"
    by (simp add: select_key_or_done_for_def c1 aw select_ready_done [where s = "sched env" and t = t, OF now])
  have turn: "configMenuTurn_timed env handleChoice showMsg ?app0 t =
     (case r1 of
        NoError \<Rightarrow>
          if ctx_done env app t then Some (Inl (NoError, app1, t))
          else Some (Inl (NoError, log_Printf app1 LogConfigMenuTimeout, t + 30000))
      | Error err \<Rightarrow> Some (Inl (Error ([0x663E, 0x793A, 0x914D, 0x7F6E, 0x83DC, 0x5355, 0x5931, 0x8D25,
                                          0x3A, 0x20] @ err), app1, t))
      | Panic \<Rightarrow> Some (Inl (Panic, app1, t)))"
    by (cases r1) (simp_all add: configMenuTurn_timed_def s sel)
  have loop: "configMenuLoop_timed env handleChoice showMsg ?app0 t =
     (case r1 of
        NoError \<Rightarrow>
          if ctx_done env app t then Some (NoError, app1, t)
          else Some (NoError, log_Printf app1 LogConfigMenuTimeout, t + 30000)
      | Error err \<Rightarrow> Some (Error ([0x663E, 0x793A, 0x914D, 0x7F6E, 0x83DC, 0x5355, 0x5931, 0x8D25,
                                     0x3A, 0x20] @ err), app1, t)
      | Panic \<Rightarrow> Some (Panic, app1, t))"
    by (subst configMenuLoop_timed.simps) (cases r1; simp add: turn)
  have ex: "\<exists>r app' t'. enterConfigMenu_timed env handleChoice showMsg app t = Some (r, app', t') \<and>
            t' \<le> t + 30000 \<and> running app' \<and> ticker_active app'"
    unfolding enterConfigMenu_timed_def loop
    by (cases r1) (simp_all add: log_Printf_def)
  have exact: "enterConfigMenu_timed env handleChoice showMsg app t =
              Some (NoError,
                    log_Printf ((log_Printf a LogConfigMenuTimeout)
                                  \<lparr>running := True, ticker_active := True\<rparr>) LogLeftConfigMenu,
                    t + 30000)"
    if "\<not> ctx_done env app t \<and> showConfigMenu env ?app0 = (NoError, a)" for a
    unfolding enterConfigMenu_timed_def loop using that s by simp
  have atonce: "enterConfigMenu_timed env handleChoice showMsg app t =
              Some (NoError,
                    log_Printf (a\<lparr>running := True, ticker_active := True\<rparr>) LogLeftConfigMenu, t)"
    if "ctx_done env app t \<and> showConfigMenu env ?app0 = (NoError, a)" for a
    unfolding enterConfigMenu_timed_def loop using that s by simp
  have never: "enterConfigMenu env app t = None"
    if "(\<forall>t'. t \<le> t' \<longrightarrow>
             (\<forall>k. sched env t' \<noteq> Some (KeyByte k)) \<and> sched env t' \<noteq> Some CtxDone) \<and>
        \<not> ctx_done env app t \<and> fst (showConfigMenu env ?app0) = NoError"
  proof -
    from that c0 have "configMenuLoop env ?app0 t = None"
      by (intro configMenuLoop_quiet) simp_all
    then show ?thesis by (simp add: enterConfigMenu_def)
  qed
  have dialog: "wait_any_key env app location t = None"
    if "(\<forall>t'. t \<le> t' \<longrightarrow> sched env t' = None \<or> sched env t' = Some CtxDone) \<and>
        \<not> closed_ki (keyboard app) \<and> device_ki (keyboard app) \<noteq> None"
    using that by (intro wait_any_key_quiet) simp_all
  from ex exact atonce never dialog show ?thesis by blast
qed

theorem enterConfigMenu_timed_returns_at_timeout_witness:
  "sched example_env 0 = None \<and> sched example_env 29999 = None \<and>
   \<not> ctx_done example_env example_app 0 \<and>
   (\<exists>r app' t'. enterConfigMenu_timed example_env (handleMenuChoice example_env)
                   (showMessage example_env) example_app 0 = Some (r, app', t') \<and>
                 t' \<le> 30000 \<and> running app' \<and> ticker_active app') \<and>
   (\<exists>app1. showConfigMenu example_env
              (log_Printf (example_app\<lparr>running := False, ticker_active := False\<rparr>)
                 LogEnteredConfigMenu) = (NoError, app1) \<and>
      enterConfigMenu_timed example_env (handleMenuChoice example_env)
        (showMessage example_env) example_app 0 =
        Some (NoError,
              log_Printf ((log_Printf app1 LogConfigMenuTimeout)
                            \<lparr>running := True, ticker_active := True\<rparr>) LogLeftConfigMenu,
              30000)) \<and>
   ctx_done example_env (example_app\<lparr>cancelled := True\<rparr>) 0 \<and>
   (\<exists>app1. showConfigMenu example_env
              (log_Printf (example_app\<lparr>cancelled := True, running := False, ticker_active := False\<rparr>)
                 LogEnteredConfigMenu) = (NoError, app1) \<and>
      enterConfigMenu_timed example_env (handleMenuChoice example_env)
        (showMessage example_env) (example_app\<lparr>cancelled := True\<rparr>) 0 =
        Some (NoError,
              log_Printf (app1\<lparr>running := True, ticker_active := True\<rparr>) LogLeftConfigMenu, 0)) \<and>
   enterConfigMenu example_env example_app 5 = None \<and>
   wait_any_key example_env (example_app\<lparr>cancelled := True\<rparr>) [] 5 = None"
proof -
  let ?app0 = "log_Printf (example_app\<lparr>running := False, ticker_active := False\<rparr>)
                 LogEnteredConfigMenu"
  let ?can = "example_app\<lparr>cancelled := True\<rparr>"
  let ?centered = "log_Printf (?can\<lparr>running := False, ticker_active := False\<rparr>) LogEnteredConfigMenu"
  have quiet: "sched example_env t' = None" for t' by (simp add: example_env_def)
  have q: "\<forall>t'. t \<le> t' \<and> t' < t + 30000 \<longrightarrow>
             (\<forall>k. sched example_env t' \<noteq> Some (KeyByte k)) \<and> sched example_env t' \<noteq> Some CtxDone"
    for t by (simp add: quiet)
  have qq: "\<forall>t'. t \<le> t' \<longrightarrow>
             (\<forall>k. sched example_env t' \<noteq> Some (KeyByte k)) \<and> sched example_env t' \<noteq> Some CtxDone"
    and qr: "\<forall>t'. t \<le> t' \<longrightarrow> sched example_env t' = None \<or> sched example_env t' = Some CtxDone"
    for t by (simp_all add: quiet)
  have fl: "\<not> ctx_done example_env example_app t" "ctx_done example_env ?can t"
    "\<not> closed_ki (keyboard ?can)" "device_ki (keyboard ?can) \<noteq> None" for t
    by (simp_all add: example_app_def example_ki_def ctx_done_def done_before_iff quiet)
  have w0: "width (fb (menuRenderer ?app0)) \<le> 20" "width (fb (menuRenderer ?centered)) \<le> 20"
    by (simp_all add: log_Printf_def example_app_def NewMenuRenderer_def example_fb_def)
  obtain app1 where sm: "showConfigMenu example_env ?app0 = (NoError, app1)"
    using example_showConfigMenu [OF w0(1)] by (cases "showConfigMenu example_env ?app0") simp
  obtain app2 where sc: "showConfigMenu example_env ?centered = (NoError, app2)"
    using example_showConfigMenu [OF w0(2)] by (cases "showConfigMenu example_env ?centered") simp
  note t = enterConfigMenu_timed_returns_at_timeout
         [OF q [of 0], where handleChoice = "handleMenuChoice example_env"
            and showMsg = "showMessage example_env" and app = example_app and location = "[]"]
  note tc = enterConfigMenu_timed_returns_at_timeout
         [OF q [of 0], where handleChoice = "handleMenuChoice example_env"
            and showMsg = "showMessage example_env" and app = ?can and location = "[]"]
  note t5 = enterConfigMenu_timed_returns_at_timeout
         [OF q [of 5], where handleChoice = "handleMenuChoice example_env"
            and showMsg = "showMessage example_env" and app = example_app and location = "[]"]
  note tc5 = enterConfigMenu_timed_returns_at_timeout
         [OF q [of 5], where handleChoice = "handleMenuChoice example_env"
            and showMsg = "showMessage example_env" and app = ?can and location = "[]"]
  from t have a: "\<exists>r app' t'. enterConfigMenu_timed example_env (handleMenuChoice example_env)
                   (showMessage example_env) example_app 0 = Some (r, app', t') \<and>
                 t' \<le> 30000 \<and> running app' \<and> ticker_active app'"
    by simp
  from t sm fl(1) [of 0] have "enterConfigMenu_timed example_env (handleMenuChoice example_env)
        (showMessage example_env) example_app 0 =
        Some (NoError,
              log_Printf ((log_Printf app1 LogConfigMenuTimeout)
                            \<lparr>running := True, ticker_active := True\<rparr>) LogLeftConfigMenu,
              0 + 30000)"
    by blast
  with sm have b: "\<exists>app1. showConfigMenu example_env ?app0 = (NoError, app1) \<and>
      enterConfigMenu_timed example_env (handleMenuChoice example_env)
        (showMessage example_env) example_app 0 =
        Some (NoError,
              log_Printf ((log_Printf app1 LogConfigMenuTimeout)
                            \<lparr>running := True, ticker_active := True\<rparr>) LogLeftConfigMenu,
              30000)"
    by simp
  from tc sc fl(2) [of 0] have "enterConfigMenu_timed example_env (handleMenuChoice example_env)
        (showMessage example_env) ?can 0 =
        Some (NoError,
              log_Printf (app2\<lparr>running := True, ticker_active := True\<rparr>) LogLeftConfigMenu, 0)"
    by blast
  with sc have c: "\<exists>app1. showConfigMenu example_env ?centered = (NoError, app1) \<and>
      enterConfigMenu_timed example_env (handleMenuChoice example_env)
        (showMessage example_env) ?can 0 =
        Some (NoError,
              log_Printf (app1\<lparr>running := True, ticker_active := True\<rparr>) LogLeftConfigMenu, 0)"
    by blast
  have ok5: "fst (showConfigMenu example_env ?app0) = NoError" using sm by simp
  from t5 qq [of 5] fl(1) [of 5] ok5 have d: "enterConfigMenu example_env example_app 5 = None"
    by blast
  from tc5 qr [of 5] fl(3,4) have e: "wait_any_key example_env ?can [] 5 = None"
    by blast
  from quiet [of 0] quiet [of 29999] fl(1) [of 0] fl(2) [of 0] a b c d e show ?thesis by simp
qed

text \<open>
  C7 as stated fails in the revision with the exit-disabled switch: with no key and no
  cancellation ever arriving, its config-menu wait never returns, and neither does the
  key wait of a message dialog.
\<close>

theorem enterConfigMenu_timed_returns_at_timeout_counterexample:
  "enterConfigMenu example_env example_app 0 = None \<and>
   showMessage example_env example_app [] 0 = None"
proof -
  have quiet: "sched example_env t' = None" for t' by (simp add: example_env_def)
  let ?app0 = "log_Printf (example_app\<lparr>running := False, ticker_active := False\<rparr>)
                 LogEnteredConfigMenu"
  have w0: "width (fb (menuRenderer ?app0)) \<le> 20"
    by (simp add: log_Printf_def example_app_def NewMenuRenderer_def example_fb_def)
  have nc: "\<not> ctx_done example_env ?app0 0"
    by (simp add: log_Printf_def example_app_def ctx_done_def)
  have "configMenuLoop example_env ?app0 0 = None"
    by (rule configMenuLoop_quiet [OF example_showConfigMenu [OF w0] nc]) (simp add: quiet)
  then have a: "enterConfigMenu example_env example_app 0 = None"
    by (simp add: enterConfigMenu_def)
  have w: "width (fb (menuRenderer example_app)) \<le> 20"
    by (simp add: example_app_def NewMenuRenderer_def example_fb_def)
  have k: "\<not> closed_ki (keyboard example_app)" "device_ki (keyboard example_app) \<noteq> None"
    by (simp_all add: example_app_def example_ki_def)
  have b: "showMessage example_env example_app [] 0 = None"
    by (rule showMessage_quiet [OF example_RenderMessage [OF w] k]) (simp add: quiet)
  from a b show ?thesis by simp
qed
section \<open>Control keys\<close>

lemma TestAdvancedNetworkConnectivity_no_error:
  "snd (snd (TestAdvancedNetworkConnectivity env mr)) = None"
  by (simp add: TestAdvancedNetworkConnectivity_def split: prod.splits)






end
